theory Spec2Isabelle
  imports Complex_Main "HOL-Library.AList" "HOL-Library.DAList" "HOL-Library.Multiset"
begin

section \<open>CodeStruct AI: project store, upload route, patch route and analysis dispatcher\<close>

text \<open>
  The development embeds three source files:
  \<^item> the in-memory store \<^verbatim>\<open>MemStorage\<close> (the storage module),
  \<^item> the HTTP handlers of \<^verbatim>\<open>server/routes.ts\<close> for upload, analysis and patching,
  \<^item> \<^verbatim>\<open>invokeAI\<close> and \<^verbatim>\<open>analyzeCodebase\<close> of \<^verbatim>\<open>server/services/openai.ts\<close>.

  JavaScript strings are modelled as \<^typ>\<open>string\<close>, instants (\<^verbatim>\<open>Date\<close>) as milliseconds
  since the epoch in \<^typ>\<open>int\<close>, and \<^verbatim>\<open>null\<close>/\<^verbatim>\<open>undefined\<close> as \<^term>\<open>None\<close>. What the
  program obtains from its runtime (\<^verbatim>\<open>randomUUID()\<close>, \<^verbatim>\<open>new Date()\<close>, the remote model,
  \<^verbatim>\<open>JSON.parse\<close>, \<^verbatim>\<open>path.extname\<close>, \<^verbatim>\<open>Buffer.toString\<close>) is a parameter of the model.
\<close>

subsection \<open>JavaScript \<^verbatim>\<open>Map\<close>\<close>

text \<open>
  A \<^verbatim>\<open>Map\<close> has at most one entry per key and iterates in insertion order;
  \<^verbatim>\<open>set\<close> on a present key replaces the value where it stands, on an absent key it
  appends. That is an association list with distinct keys, \<^typ>\<open>('k, 'v) alist\<close>.
\<close>

definition Map_get :: "('k, 'v) alist \<Rightarrow> 'k \<Rightarrow> 'v option" where
  "Map_get m k = DAList.lookup m k"

definition Map_set :: "'k \<Rightarrow> 'v \<Rightarrow> ('k, 'v) alist \<Rightarrow> ('k, 'v) alist" where
  "Map_set k v m = DAList.update k v m"

definition Map_has :: "('k, 'v) alist \<Rightarrow> 'k \<Rightarrow> bool" where
  "Map_has m k = (DAList.lookup m k \<noteq> None)"

text \<open>\<^verbatim>\<open>Map.prototype.delete\<close> answers whether the key was present.\<close>

definition Map_delete :: "'k \<Rightarrow> ('k, 'v) alist \<Rightarrow> bool \<times> ('k, 'v) alist" where
  "Map_delete k m = (Map_has m k, DAList.delete k m)"

definition Map_keys :: "('k, 'v) alist \<Rightarrow> 'k list" where
  "Map_keys m = map fst (DAList.impl_of m)"

definition Map_values :: "('k, 'v) alist \<Rightarrow> 'v list" where
  "Map_values m = map snd (DAList.impl_of m)"

subsection \<open>JSON values\<close>

datatype json =
    JNull
  | JBool bool
  | JNumber rat
  | JString string
  | JArray "json list"
  | JObject "(string \<times> json) list"

definition json_field :: "string \<Rightarrow> json \<Rightarrow> json option" where
  "json_field k v = (case v of JObject kvs \<Rightarrow> map_of kvs k | _ \<Rightarrow> None)"

subsection \<open>Entities of the store\<close>

record User =
  user_id :: string
  username :: string
  email :: string
  subscriptionTier :: string
  trialEndsAt :: "int option"
  user_createdAt :: "int option"

record Project =
  project_id :: string
  userId :: string
  name :: string
  fileCount :: nat
  languageCount :: nat
  lastScanAt :: "int option"
  linesProcessed :: nat
  project_createdAt :: "int option"

record InsertProject =
  ins_name :: string

record ProjectFile =
  file_id :: string
  file_projectId :: string
  path :: string
  content :: string
  language :: "string option"
  file_size :: "nat option"
  file_createdAt :: "int option"

record InsertProjectFile =
  ins_path :: string
  ins_content :: string
  ins_language :: "string option"
  ins_size :: "nat option"

text \<open>
  An \<^verbatim>\<open>AnalysisResult\<close> is built as \<^verbatim>\<open>{...analysisData, id, projectId, createdAt}\<close>:
  the three named keys are written last and so win over equally named keys of the payload,
  which is kept as it came.
\<close>

record AnalysisResult =
  analysis_id :: string
  analysis_projectId :: string
  analysis_createdAt :: "int option"
  analysisData :: json

text \<open>
  \<^verbatim>\<open>Partial<T>\<close>: every key may be absent. Spreading \<^verbatim>\<open>{...old, ...updates}\<close> takes a
  key from \<^verbatim>\<open>updates\<close> when it is there and from \<^verbatim>\<open>old\<close> otherwise.
\<close>

record Partial_Project =
  upd_project_id :: "string option"
  upd_userId :: "string option"
  upd_name :: "string option"
  upd_fileCount :: "nat option"
  upd_languageCount :: "nat option"
  upd_lastScanAt :: "int option option"
  upd_linesProcessed :: "nat option"
  upd_project_createdAt :: "int option option"

definition no_Project_updates :: Partial_Project where
  "no_Project_updates = \<lparr> upd_project_id = None, upd_userId = None, upd_name = None,
     upd_fileCount = None, upd_languageCount = None, upd_lastScanAt = None,
     upd_linesProcessed = None, upd_project_createdAt = None \<rparr>"

definition or_old :: "'a option \<Rightarrow> 'a \<Rightarrow> 'a" where
  "or_old u old = (case u of None \<Rightarrow> old | Some v \<Rightarrow> v)"

definition spread_Project :: "Project \<Rightarrow> Partial_Project \<Rightarrow> Project" where
  "spread_Project p u = \<lparr>
     project_id = or_old (upd_project_id u) (project_id p),
     userId = or_old (upd_userId u) (userId p),
     name = or_old (upd_name u) (name p),
     fileCount = or_old (upd_fileCount u) (fileCount p),
     languageCount = or_old (upd_languageCount u) (languageCount p),
     lastScanAt = or_old (upd_lastScanAt u) (lastScanAt p),
     linesProcessed = or_old (upd_linesProcessed u) (linesProcessed p),
     project_createdAt = or_old (upd_project_createdAt u) (project_createdAt p) \<rparr>"

record Partial_ProjectFile =
  upd_file_id :: "string option"
  upd_file_projectId :: "string option"
  upd_path :: "string option"
  upd_content :: "string option"
  upd_language :: "string option option"
  upd_file_size :: "nat option option"
  upd_file_createdAt :: "int option option"

definition no_ProjectFile_updates :: Partial_ProjectFile where
  "no_ProjectFile_updates = \<lparr> upd_file_id = None, upd_file_projectId = None, upd_path = None,
     upd_content = None, upd_language = None, upd_file_size = None, upd_file_createdAt = None \<rparr>"

definition spread_ProjectFile :: "ProjectFile \<Rightarrow> Partial_ProjectFile \<Rightarrow> ProjectFile" where
  "spread_ProjectFile f u = \<lparr>
     file_id = or_old (upd_file_id u) (file_id f),
     file_projectId = or_old (upd_file_projectId u) (file_projectId f),
     path = or_old (upd_path u) (path f),
     content = or_old (upd_content u) (content f),
     language = or_old (upd_language u) (language f),
     file_size = or_old (upd_file_size u) (file_size f),
     file_createdAt = or_old (upd_file_createdAt u) (file_createdAt f) \<rparr>"

subsection \<open>\<^verbatim>\<open>MemStorage\<close>\<close>

record MemStorage =
  users :: "(string, User) alist"
  projects :: "(string, Project) alist"
  projectFiles :: "(string, ProjectFile) alist"
  analysisResults :: "(string, AnalysisResult) alist"

definition new_MemStorage :: MemStorage where
  "new_MemStorage = \<lparr> users = DAList.empty, projects = DAList.empty,
     projectFiles = DAList.empty, analysisResults = DAList.empty \<rparr>"

text \<open>
  The operations that draw an identifier or read the clock take the drawn value as an
  argument: \<open>uuid\<close> is what \<^verbatim>\<open>randomUUID()\<close> returned, \<open>now\<close> what \<^verbatim>\<open>new Date()\<close> read.
\<close>

definition getProject :: "MemStorage \<Rightarrow> string \<Rightarrow> Project option" where
  "getProject st ident = Map_get (projects st) ident"

definition getProjectsByUser :: "MemStorage \<Rightarrow> string \<Rightarrow> Project list" where
  "getProjectsByUser st uid = filter (\<lambda>project. userId project = uid) (Map_values (projects st))"

definition createProject ::
  "MemStorage \<Rightarrow> string \<Rightarrow> int \<Rightarrow> string \<Rightarrow> InsertProject \<Rightarrow> Project \<times> MemStorage" where
  "createProject st uuid now uid insertProject =
     (let project = \<lparr> project_id = uuid, userId = uid, name = ins_name insertProject,
            fileCount = 0, languageCount = 0, lastScanAt = None, linesProcessed = 0,
            project_createdAt = Some now \<rparr>
      in (project, st\<lparr>projects := Map_set uuid project (projects st)\<rparr>))"

definition updateProject ::
  "MemStorage \<Rightarrow> string \<Rightarrow> Partial_Project \<Rightarrow> Project option \<times> MemStorage" where
  "updateProject st ident updates =
     (case Map_get (projects st) ident of
        None \<Rightarrow> (None, st)
      | Some project \<Rightarrow>
          (let updatedProject = spread_Project project updates
           in (Some updatedProject,
               st\<lparr>projects := Map_set ident updatedProject (projects st)\<rparr>)))"

definition getProjectFiles :: "MemStorage \<Rightarrow> string \<Rightarrow> ProjectFile list" where
  "getProjectFiles st pid =
     filter (\<lambda>file. file_projectId file = pid) (Map_values (projectFiles st))"

definition getProjectFile :: "MemStorage \<Rightarrow> string \<Rightarrow> ProjectFile option" where
  "getProjectFile st ident = Map_get (projectFiles st) ident"

definition createProjectFile ::
  "MemStorage \<Rightarrow> string \<Rightarrow> int \<Rightarrow> string \<Rightarrow> InsertProjectFile \<Rightarrow> ProjectFile \<times> MemStorage" where
  "createProjectFile st uuid now pid insertFile =
     (let file = \<lparr> file_id = uuid, file_projectId = pid, path = ins_path insertFile,
            content = ins_content insertFile, language = ins_language insertFile,
            file_size = ins_size insertFile, file_createdAt = Some now \<rparr>
      in (file, st\<lparr>projectFiles := Map_set uuid file (projectFiles st)\<rparr>))"

definition updateProjectFile ::
  "MemStorage \<Rightarrow> string \<Rightarrow> Partial_ProjectFile \<Rightarrow> ProjectFile option \<times> MemStorage" where
  "updateProjectFile st ident updates =
     (case Map_get (projectFiles st) ident of
        None \<Rightarrow> (None, st)
      | Some file \<Rightarrow>
          (let updatedFile = spread_ProjectFile file updates
           in (Some updatedFile,
               st\<lparr>projectFiles := Map_set ident updatedFile (projectFiles st)\<rparr>)))"

definition deleteProjectFile :: "MemStorage \<Rightarrow> string \<Rightarrow> bool \<times> MemStorage" where
  "deleteProjectFile st ident =
     (let (existed, m) = Map_delete ident (projectFiles st)
      in (existed, st\<lparr>projectFiles := m\<rparr>))"

text \<open>
  \<^verbatim>\<open>deleteProjectFiles\<close> first collects the keys whose entry belongs to the project,
  then deletes them one by one.
\<close>

definition deleteProjectFiles :: "MemStorage \<Rightarrow> string \<Rightarrow> bool \<times> MemStorage" where
  "deleteProjectFiles st pid =
     (let filesToDelete =
            filter (\<lambda>key. map_option file_projectId (Map_get (projectFiles st) key) = Some pid)
              (Map_keys (projectFiles st))
      in (True, st\<lparr>projectFiles := fold (\<lambda>key m. snd (Map_delete key m)) filesToDelete
                                      (projectFiles st)\<rparr>))"

definition deleteProject :: "MemStorage \<Rightarrow> string \<Rightarrow> bool \<times> MemStorage" where
  "deleteProject st ident =
     (let st1 = snd (deleteProjectFiles st ident);
          keys = filter (\<lambda>key. map_option analysis_projectId (Map_get (analysisResults st1) key)
                                = Some ident)
                   (Map_keys (analysisResults st1));
          st2 = st1\<lparr>analysisResults := fold (\<lambda>key m. snd (Map_delete key m)) keys
                                          (analysisResults st1)\<rparr>;
          (existed, m) = Map_delete ident (projects st2)
      in (existed, st2\<lparr>projects := m\<rparr>))"

text \<open>
  \<^verbatim>\<open>new Date(a.createdAt || 0).getTime()\<close>: a missing creation date counts as the epoch.
\<close>

definition created_ms :: "AnalysisResult \<Rightarrow> int" where
  "created_ms a = (case analysis_createdAt a of None \<Rightarrow> 0 | Some t \<Rightarrow> t)"

text \<open>
  \<^verbatim>\<open>Array.prototype.sort\<close> is stable; the comparator \<^verbatim>\<open>time(b) - time(a)\<close> orders by
  descending time, which is ascending order of the negated time.
\<close>

definition getLatestAnalysis :: "MemStorage \<Rightarrow> string \<Rightarrow> AnalysisResult option" where
  "getLatestAnalysis st pid =
     (let analyses = sort_key (\<lambda>a. - created_ms a)
                       (filter (\<lambda>analysis. analysis_projectId analysis = pid)
                          (Map_values (analysisResults st)))
      in (case analyses of [] \<Rightarrow> None | a # _ \<Rightarrow> Some a))"

definition createAnalysis ::
  "MemStorage \<Rightarrow> string \<Rightarrow> int \<Rightarrow> string \<Rightarrow> json \<Rightarrow> AnalysisResult \<times> MemStorage" where
  "createAnalysis st uuid now pid data =
     (let analysis = \<lparr> analysis_id = uuid, analysis_projectId = pid,
            analysis_createdAt = Some now, analysisData = data \<rparr>
      in (analysis, st\<lparr>analysisResults := Map_set uuid analysis (analysisResults st)\<rparr>))"

subsection \<open>The runtime, as a parameter\<close>

type_synonym message = "string \<times> string"

datatype request_body =
    AnthropicBody "message list"
  | NovaBody "message list"
  | TitanBody string

text \<open>
  What one request gets from outside the program:
  \<^item> \<open>randomUUID i\<close> and \<open>Date_now i\<close>: the result of the \<open>i\<close>-th call of
    \<^verbatim>\<open>randomUUID()\<close> and of \<^verbatim>\<open>new Date()\<close> made while the request is handled;
  \<^item> \<open>extname\<close>, \<open>toLowerCase\<close>: \<^verbatim>\<open>path.extname\<close> and \<^verbatim>\<open>String.prototype.toLowerCase\<close>;
  \<^item> \<open>utf8_decode\<close>: the text a buffer decodes to, and \<open>MAX_STRING_LENGTH\<close>: the
    longest string the runtime can build (\<^verbatim>\<open>buffer.constants.MAX_STRING_LENGTH\<close>);
  \<^item> \<open>bedrock_send model body\<close>: the text taken from the Bedrock reply, \<^term>\<open>None\<close> when
    sending, decoding or reading the reply raises;
  \<^item> \<open>OPENAI_API_KEY\<close>: the environment variable; \<open>openai_create msgs\<close>: \<^term>\<open>None\<close> when
    the call raises, else the \<^verbatim>\<open>content\<close> of the first choice (possibly \<^verbatim>\<open>null\<close>);
  \<^item> \<open>JSON_parse\<close>: \<^verbatim>\<open>JSON.parse\<close>, \<^term>\<open>None\<close> when it raises a syntax error.
\<close>

record env =
  randomUUID :: "nat \<Rightarrow> string"
  Date_now :: "nat \<Rightarrow> int"
  extname :: "string \<Rightarrow> string"
  toLowerCase :: "string \<Rightarrow> string"
  utf8_decode :: "string \<Rightarrow> string"
  MAX_STRING_LENGTH :: nat
  bedrock_send :: "string \<Rightarrow> request_body \<Rightarrow> string option"
  OPENAI_API_KEY :: "string option"
  openai_create :: "message list \<Rightarrow> string option option"
  JSON_parse :: "string \<Rightarrow> json option"

text \<open>\<^verbatim>\<open>v || d\<close> on a string that may be missing: the empty string is falsy too.\<close>

definition js_or :: "string option \<Rightarrow> string \<Rightarrow> string" where
  "js_or v d = (case v of None \<Rightarrow> d | Some s \<Rightarrow> if s = [] then d else s)"

definition truthy :: "string option \<Rightarrow> bool" where
  "truthy v = (case v of None \<Rightarrow> False | Some s \<Rightarrow> s \<noteq> [])"

definition startsWith :: "string \<Rightarrow> string \<Rightarrow> bool" where
  "startsWith s p = (take (length p) s = p)"

fun string_includes :: "string \<Rightarrow> string \<Rightarrow> bool" where
  "string_includes [] sub = (sub = [])"
| "string_includes (c # cs) sub = (startsWith (c # cs) sub \<or> string_includes cs sub)"

fun join :: "string \<Rightarrow> string list \<Rightarrow> string" where
  "join sep [] = []"
| "join sep [x] = x"
| "join sep (x # y # ys) = x @ sep @ join sep (y # ys)"

text \<open>\<^verbatim>\<open>s.split(c)\<close> for a one-character separator; the empty string gives one empty piece.\<close>

fun split :: "char \<Rightarrow> string \<Rightarrow> string list" where
  "split c [] = [Nil]"
| "split c (x # xs) =
     (if x = c then [] # split c xs
      else (let r = split c xs in (x # hd r) # tl r))"

subsection \<open>HTTP responses and the upload route\<close>

datatype response_body =
    Message string
  | UploadSummary string nat nat nat
  | FileBody ProjectFile
  | AnalysisBody AnalysisResult

datatype response = Response (status: nat) (body: response_body)

text \<open>A file as multer's memory storage hands it over.\<close>

record Multer_File =
  originalname :: string
  buffer :: string
  size_bytes :: nat

definition languageMap :: "(string \<times> string) list" where
  "languageMap =
     [(''.js'', ''javascript''), (''.jsx'', ''javascript''), (''.ts'', ''typescript''),
      (''.tsx'', ''typescript''), (''.py'', ''python''), (''.java'', ''java''),
      (''.cpp'', ''cpp''), (''.c'', ''c''), (''.cs'', ''csharp''), (''.go'', ''go''),
      (''.php'', ''php''), (''.rb'', ''ruby''), (''.rs'', ''rust''), (''.kt'', ''kotlin''),
      (''.swift'', ''swift''), (''.html'', ''html''), (''.css'', ''css''),
      (''.scss'', ''scss''), (''.sass'', ''sass''), (''.json'', ''json''),
      (''.xml'', ''xml''), (''.yml'', ''yaml''), (''.yaml'', ''yaml'')]"

definition detectLanguage :: "env \<Rightarrow> string \<Rightarrow> string" where
  "detectLanguage e filename =
     (let ext = toLowerCase e (extname e filename)
      in js_or (map_of languageMap ext) ''text'')"

text \<open>
  \<^verbatim>\<open>buffer.toString('utf-8')\<close> raises (\<^verbatim>\<open>ERR_STRING_TOO_LONG\<close>) when the buffer holds
  more bytes than the runtime's longest string has characters; otherwise it returns the
  decoded text.
\<close>

definition Buffer_toString :: "env \<Rightarrow> string \<Rightarrow> string + string" where
  "Buffer_toString e buf =
     (if MAX_STRING_LENGTH e < length buf
      then Inl ''Cannot create a string longer than MAX_STRING_LENGTH characters''
      else Inr (utf8_decode e buf))"

text \<open>
  The \<^verbatim>\<open>for (const file of files)\<close> loop of the upload handler. \<open>i\<close> counts the
  iterations (each draws one identifier and reads the clock once), \<open>uploadedFiles\<close> and
  \<open>totalLines\<close> are the handler's two accumulators. An exception leaves the loop with the
  store as it is at that moment.
\<close>

fun upload_loop ::
  "env \<Rightarrow> string \<Rightarrow> Multer_File list \<Rightarrow> nat \<Rightarrow> MemStorage \<Rightarrow> ProjectFile list \<Rightarrow> nat
     \<Rightarrow> (string + ProjectFile list \<times> nat) \<times> MemStorage" where
  "upload_loop e pid [] i st uploadedFiles totalLines = (Inr (uploadedFiles, totalLines), st)"
| "upload_loop e pid (file # rest) i st uploadedFiles totalLines =
     (case Buffer_toString e (buffer file) of
        Inl err \<Rightarrow> (Inl err, st)
      | Inr text \<Rightarrow>
          (let lang = detectLanguage e (originalname file);
               lines = length (split CHR 0x0A text);
               (projectFile, st') =
                  createProjectFile st (randomUUID e i) (Date_now e i) pid
                    \<lparr> ins_path = originalname file, ins_content = text,
                      ins_language = Some lang, ins_size = Some (size_bytes file) \<rparr>
           in upload_loop e pid rest (Suc i) st' (uploadedFiles @ [projectFile])
                (totalLines + lines)))"

text \<open>
  \<^verbatim>\<open>POST /api/projects/:id/upload\<close>. \<open>files\<close> is \<^verbatim>\<open>req.files\<close>, \<^term>\<open>None\<close> when multer
  set none. \<^verbatim>\<open>new Set(uploadedFiles.map(f => f.language).filter(Boolean)).size\<close> counts the
  distinct languages that are neither \<^verbatim>\<open>null\<close> nor empty.
\<close>

definition upload_route ::
  "env \<Rightarrow> MemStorage \<Rightarrow> string \<Rightarrow> Multer_File list option \<Rightarrow> response \<times> MemStorage" where
  "upload_route e st projectId files =
     (case files of
        None \<Rightarrow> (Response 400 (Message ''No files uploaded''), st)
      | Some fs \<Rightarrow>
          if length fs = 0 then (Response 400 (Message ''No files uploaded''), st)
          else
            (case getProject st projectId of
               None \<Rightarrow> (Response 404 (Message ''Project not found''), st)
             | Some project \<Rightarrow>
                 (let st1 = snd (deleteProjectFiles st projectId)
                  in (case upload_loop e projectId fs 0 st1 [] 0 of
                        (Inl err, st2) \<Rightarrow>
                          (Response 500 (Message ''Failed to upload files''), st2)
                      | (Inr (uploadedFiles, totalLines), st2) \<Rightarrow>
                          (let languageSet =
                                 remdups (filter truthy (map language uploadedFiles));
                               st3 = snd (updateProject st2 projectId
                                 (no_Project_updates\<lparr>
                                    upd_fileCount := Some (length uploadedFiles),
                                    upd_languageCount := Some (length languageSet),
                                    upd_linesProcessed := Some totalLines,
                                    upd_lastScanAt := Some (Some (Date_now e (length fs)))\<rparr>))
                           in (Response 200
                                 (UploadSummary ''Files uploaded successfully''
                                    (length uploadedFiles) (length languageSet) totalLines),
                               st3))))))"

text \<open>
  \<^verbatim>\<open>PATCH /api/files/:id\<close> with a body \<^verbatim>\<open>{content}\<close>; the update object has the one key
  \<^verbatim>\<open>content\<close>.
\<close>

definition patch_route :: "MemStorage \<Rightarrow> string \<Rightarrow> string \<Rightarrow> response \<times> MemStorage" where
  "patch_route st ident new_content =
     (case updateProjectFile st ident (no_ProjectFile_updates\<lparr>upd_content := Some new_content\<rparr>) of
        (None, st') \<Rightarrow> (Response 404 (Message ''File not found''), st')
      | (Some file, st') \<Rightarrow> (Response 200 (FileBody file), st'))"

subsection \<open>The analysis dispatcher\<close>

definition modelsToTry :: "string list" where
  "modelsToTry = [''amazon.nova-lite-v1:0'']"

text \<open>
  One turn of the loop over \<^verbatim>\<open>modelsToTry\<close>: choose the request format from the model
  name, send, and return the reply's text. \<^term>\<open>None\<close> stands for \<^verbatim>\<open>continue\<close>, both
  for a model of unknown format and for an exception caught inside the loop. The request
  body is kept as the data it is serialised from; \<^verbatim>\<open>JSON.stringify\<close> of an object is never
  empty, so the guard \<^verbatim>\<open>if (!body)\<close> does not fire.
\<close>

definition try_model :: "env \<Rightarrow> message list \<Rightarrow> string \<Rightarrow> string option \<Rightarrow> string \<Rightarrow> string option" where
  "try_model e messages prompt systemPrompt modelId =
     (if string_includes modelId ''anthropic'' \<or> string_includes modelId ''claude''
      then bedrock_send e modelId (AnthropicBody messages)
      else if startsWith modelId ''amazon.nova''
      then bedrock_send e modelId
             (NovaBody (map (\<lambda>msg. (if fst msg = ''user'' then ''user'' else ''assistant'', snd msg))
                          messages))
      else if startsWith modelId ''amazon.titan''
      then bedrock_send e modelId
             (TitanBody ((if truthy systemPrompt then the systemPrompt @ ''\<newline>\<newline>'' else [])
                          @ prompt))
      else None)"

fun try_models :: "env \<Rightarrow> message list \<Rightarrow> string \<Rightarrow> string option \<Rightarrow> string list \<Rightarrow> string option" where
  "try_models e messages prompt systemPrompt [] = None"
| "try_models e messages prompt systemPrompt (modelId # rest) =
     (case try_model e messages prompt systemPrompt modelId of
        Some text \<Rightarrow> Some text
      | None \<Rightarrow> try_models e messages prompt systemPrompt rest)"

text \<open>
  \<^verbatim>\<open>invokeAI\<close>: the Bedrock models in order, then OpenAI when a key is configured, then
  the error, which the outer \<^verbatim>\<open>catch\<close> wraps. \<^term>\<open>Inl\<close> carries the message of the
  \<^verbatim>\<open>Error\<close> thrown.
\<close>

definition invokeAI :: "env \<Rightarrow> string \<Rightarrow> string option \<Rightarrow> string + string" where
  "invokeAI e prompt systemPrompt =
     (let messages = (if truthy systemPrompt then [(''user'', the systemPrompt)] else [])
                       @ [(''user'', prompt)]
      in (case try_models e messages prompt systemPrompt modelsToTry of
            Some text \<Rightarrow> Inr text
          | None \<Rightarrow>
              (case (if truthy (OPENAI_API_KEY e) then openai_create e messages else None) of
                 Some reply \<Rightarrow> Inr (js_or reply ''No response from OpenAI'')
               | None \<Rightarrow>
                   Inl (''Failed to invoke AWS Bedrock: ''
                          @ ''All Bedrock models and OpenAI fallback failed''))))"

record FileData =
  fd_path :: string
  fd_content :: string
  fd_language :: "string option"

text \<open>A template literal prints a missing value as \<^verbatim>\<open>undefined\<close>.\<close>

definition show_opt :: "string option \<Rightarrow> string" where
  "show_opt v = (case v of None \<Rightarrow> ''undefined'' | Some s \<Rightarrow> s)"

definition filesList :: "FileData list \<Rightarrow> string" where
  "filesList files =
     join ''\<newline>'' (map (\<lambda>f. fd_path f @ '' ('' @ show_opt (fd_language f) @ '')'') files)"

definition sampleContent :: "FileData list \<Rightarrow> string" where
  "sampleContent files =
     join ''\<newline>\<newline>''
       (map (\<lambda>f. ''// '' @ fd_path f @ ''\<newline>'' @ take 2000 (fd_content f)) files)"

definition analysis_prompt :: "FileData list \<Rightarrow> string" where
  \<open>analysis_prompt files =
     ''Analyze this codebase and provide a comprehensive analysis. \<newline>\<newline>Files in project:\<newline>''
     @ filesList files
     @ ''\<newline>\<newline>Sample content from key files:\<newline>''
     @ sampleContent files
     @ ''\<newline>\<newline>Please analyze and return JSON with this exact structure:\<newline>{\<newline>''
     @ ''  "detectedLanguages": { "language": percentage },\<newline>''
     @ ''  "architecture": "string describing the overall architecture pattern",\<newline>''
     @ ''  "issues": [\<newline>    {\<newline>      "type": "string",\<newline>''
     @ ''      "severity": "high|medium|low", \<newline>      "file": "filename",\<newline>''
     @ ''      "description": "description",\<newline>      "line": number_optional\<newline>    }\<newline>  ],\<newline>''
     @ ''  "suggestions": [\<newline>    {\<newline>      "type": "string",\<newline>''
     @ ''      "title": "suggestion title",\<newline>      "description": "detailed description",\<newline>''
     @ ''      "file": "filename_optional",\<newline>      "changes": "proposed changes_optional"\<newline>''
     @ ''    }\<newline>  ]\<newline>}\<newline>\<newline>Focus on:\<newline>''
     @ ''1. Language detection with percentages\<newline>2. Architecture pattern identification\<newline>''
     @ ''3. Code quality issues (missing docs, duplications, unused imports, etc.)\<newline>''
     @ ''4. Actionable improvement suggestions\<newline>5. Best practices violations''\<close>

definition analysis_systemPrompt :: string where
  "analysis_systemPrompt =
     ''You are an expert code analyst. Analyze codebases and provide structured feedback on ''
     @ ''architecture, issues, and improvements. Always respond with valid JSON.''"

text \<open>The object returned when the reply is not JSON.\<close>

definition parse_fallback :: json where
  "parse_fallback = JObject
     [(''detectedLanguages'', JObject [(''unknown'', JNumber 100)]),
      (''architecture'', JString ''Unable to analyze - parsing error''),
      (''issues'', JArray []),
      (''suggestions'', JArray [])]"

text \<open>The object returned from the outer \<^verbatim>\<open>catch\<close>; \<open>file\<close> is \<^verbatim>\<open>files[0]?.path || "uploaded-file"\<close>.\<close>

definition first_path :: "FileData list \<Rightarrow> string" where
  "first_path files =
     js_or (case files of [] \<Rightarrow> None | f # _ \<Rightarrow> Some (fd_path f)) ''uploaded-file''"

definition demo_fallback :: "FileData list \<Rightarrow> json" where
  "demo_fallback files = JObject
     [(''detectedLanguages'', JObject [(''TypeScript'', JNumber 85), (''JavaScript'', JNumber 15)]),
      (''architecture'', JString (''Express.js REST API with TypeScript, featuring modular ''
          @ ''route organization and authentication middleware'')),
      (''issues'', JArray
         [JObject [(''type'', JString ''Code Quality''), (''severity'', JString ''medium''),
                   (''file'', JString (first_path files)),
                   (''description'', JString (''Consider adding comprehensive JSDoc comments ''
                       @ ''for better code documentation''))],
          JObject [(''type'', JString ''Security''), (''severity'', JString ''low''),
                   (''file'', JString (first_path files)),
                   (''description'', JString (''Implement input validation for all user inputs ''
                       @ ''to prevent injection attacks''))]]),
      (''suggestions'', JArray
         [JObject [(''type'', JString ''Performance''), (''title'', JString ''Add request caching''),
                   (''description'', JString (''Implement Redis or in-memory caching for frequently ''
                       @ ''accessed data to improve response times'')),
                   (''file'', JString (first_path files))],
          JObject [(''type'', JString ''Maintainability''),
                   (''title'', JString ''Error handling standardization''),
                   (''description'', JString (''Create a centralized error handling middleware ''
                       @ ''to ensure consistent error responses'')),
                   (''file'', JString (first_path files))]])]"

text \<open>
  The body of the outer \<^verbatim>\<open>try\<close> of \<^verbatim>\<open>analyzeCodebase\<close>: \<^term>\<open>Inl\<close> when
  \<^verbatim>\<open>invokeAI\<close> throws; a reply that does not parse is answered by the inner \<^verbatim>\<open>catch\<close>.
\<close>

definition analyzeCodebase_try :: "env \<Rightarrow> FileData list \<Rightarrow> string + json" where
  "analyzeCodebase_try e files =
     (case invokeAI e (analysis_prompt files) (Some analysis_systemPrompt) of
        Inl err \<Rightarrow> Inl err
      | Inr response \<Rightarrow>
          (case JSON_parse e response of
             Some v \<Rightarrow> Inr v
           | None \<Rightarrow> Inr parse_fallback))"

text \<open>\<^verbatim>\<open>analyzeCodebase\<close>: \<^term>\<open>Inr\<close> is the value returned, \<^term>\<open>Inl\<close> an exception.\<close>

definition analyzeCodebase :: "env \<Rightarrow> FileData list \<Rightarrow> string + json" where
  "analyzeCodebase e files =
     (case analyzeCodebase_try e files of
        Inl err \<Rightarrow> Inr (demo_fallback files)
      | Inr v \<Rightarrow> Inr v)"

text \<open>\<^verbatim>\<open>POST /api/projects/:id/analyze\<close>.\<close>

definition analyze_route :: "env \<Rightarrow> MemStorage \<Rightarrow> string \<Rightarrow> response \<times> MemStorage" where
  "analyze_route e st projectId =
     (case getProject st projectId of
        None \<Rightarrow> (Response 404 (Message ''Project not found''), st)
      | Some project \<Rightarrow>
          (let files = getProjectFiles st projectId
           in if length files = 0 then (Response 400 (Message ''No files to analyze''), st)
              else
                (let fileData = map (\<lambda>file. \<lparr> fd_path = path file, fd_content = content file,
                                      fd_language = (if truthy (language file) then language file
                                                     else None) \<rparr>) files
                 in (case analyzeCodebase e fileData of
                       Inl err \<Rightarrow>
                         (Response 500 (Message (''Failed to analyze project: '' @ err)), st)
                     | Inr analysisResult \<Rightarrow>
                         (let (analysis, st') =
                                createAnalysis st (randomUUID e 0) (Date_now e 0) projectId
                                  analysisResult
                          in (Response 200 (AnalysisBody analysis), st'))))))"

subsection \<open>Properties named by the specification\<close>

text \<open>
  The shape the specification asks of an analysis value: an object whose
  \<^verbatim>\<open>detectedLanguages\<close> is an object and whose \<^verbatim>\<open>issues\<close> and \<^verbatim>\<open>suggestions\<close> are arrays.
\<close>

definition is_object :: "json option \<Rightarrow> bool" where
  "is_object v = (case v of Some (JObject _) \<Rightarrow> True | _ \<Rightarrow> False)"

definition is_array :: "json option \<Rightarrow> bool" where
  "is_array v = (case v of Some (JArray _) \<Rightarrow> True | _ \<Rightarrow> False)"

definition is_string :: "json option \<Rightarrow> bool" where
  "is_string v = (case v of Some (JString _) \<Rightarrow> True | _ \<Rightarrow> False)"

definition well_typed_analysis :: "json \<Rightarrow> bool" where
  "well_typed_analysis v =
     (is_object (json_field ''detectedLanguages'' v) \<and> is_array (json_field ''issues'' v)
      \<and> is_array (json_field ''suggestions'' v))"

text \<open>
  The fallback result as the specification describes it: one language entry, no issue,
  no suggestion, and an architecture string.
\<close>

definition spec_fallback_shape :: "json \<Rightarrow> bool" where
  "spec_fallback_shape v =
     ((case json_field ''detectedLanguages'' v of Some (JObject kvs) \<Rightarrow> length kvs = 1 | _ \<Rightarrow> False)
      \<and> json_field ''issues'' v = Some (JArray [])
      \<and> json_field ''suggestions'' v = Some (JArray [])
      \<and> is_string (json_field ''architecture'' v))"

definition array_length :: "json option \<Rightarrow> nat option" where
  "array_length v = (case v of Some (JArray xs) \<Rightarrow> Some (length xs) | _ \<Rightarrow> None)"

definition object_keys :: "json option \<Rightarrow> string list option" where
  "object_keys v = (case v of Some (JObject kvs) \<Rightarrow> Some (map fst kvs) | _ \<Rightarrow> None)"

text \<open>All configured backends fail: the one Bedrock model, and OpenAI if it is tried at all.\<close>

definition all_backends_fail :: "env \<Rightarrow> string \<Rightarrow> string option \<Rightarrow> bool" where
  "all_backends_fail e prompt systemPrompt =
     (let messages = (if truthy systemPrompt then [(''user'', the systemPrompt)] else [])
                       @ [(''user'', prompt)]
      in try_models e messages prompt systemPrompt modelsToTry = None
         \<and> (if truthy (OPENAI_API_KEY e) then openai_create e messages = None else True))"

text \<open>The language tags of a project's stored files that are not \<^verbatim>\<open>null\<close>.\<close>

definition language_tags :: "ProjectFile list \<Rightarrow> string set" where
  "language_tags fs = Option.these (set (map language fs))"

text \<open>The record the upload handler stores for the \<open>i\<close>-th file of a batch.\<close>

definition uploaded_record :: "env \<Rightarrow> string \<Rightarrow> nat \<Rightarrow> Multer_File \<Rightarrow> ProjectFile" where
  "uploaded_record e pid i file =
     \<lparr> file_id = randomUUID e i, file_projectId = pid, path = originalname file,
       content = utf8_decode e (buffer file),
       language = Some (detectLanguage e (originalname file)),
       file_size = Some (size_bytes file), file_createdAt = Some (Date_now e i) \<rparr>"

fun uploaded_records_from :: "env \<Rightarrow> string \<Rightarrow> nat \<Rightarrow> Multer_File list \<Rightarrow> ProjectFile list" where
  "uploaded_records_from e pid i [] = []"
| "uploaded_records_from e pid i (file # rest) =
     uploaded_record e pid i file # uploaded_records_from e pid (Suc i) rest"

definition uploaded_records :: "env \<Rightarrow> string \<Rightarrow> Multer_File list \<Rightarrow> ProjectFile list" where
  "uploaded_records e pid fs = uploaded_records_from e pid 0 fs"

text \<open>A call that returns a value with property \<open>P\<close>, as opposed to one that throws.\<close>

definition returns_with :: "(json \<Rightarrow> bool) \<Rightarrow> string + json \<Rightarrow> bool" where
  "returns_with P r = (case r of Inl err \<Rightarrow> False | Inr v \<Rightarrow> P v)"

subsection \<open>Concrete stores, batches and runtimes used as examples\<close>

text \<open>
  A store with one project \<^verbatim>\<open>p1\<close> that holds one file and one analysis; a runtime whose
  remote backends are all down; batches to upload. \<open>example_extname\<close> takes the text from
  the last dot on, which is what \<^verbatim>\<open>path.extname\<close> returns for the plain file names used
  here; those names are lower case already. The longest string of the example runtime,
  536870888 characters, is the value \<^verbatim>\<open>buffer.constants.MAX_STRING_LENGTH\<close> has on
  64-bit Node.js; \<open>huge_buffer\<close> is one byte longer than that. \<open>JSON_parse\<close> of the example
  runtime is given on the two reply texts used: \<^verbatim>\<open>{}\<close> parses to the empty object, the
  other one is not JSON.
\<close>

definition example_extname :: "string \<Rightarrow> string" where
  "example_extname f =
     (if CHR ''.'' \<in> set f then CHR ''.'' # rev (takeWhile (\<lambda>c. c \<noteq> CHR ''.'') (rev f)) else [])"

definition example_env :: env where
  "example_env = \<lparr>
     randomUUID = (\<lambda>i. ''uuid-'' @ replicate i CHR ''x''),
     Date_now = (\<lambda>i. 1700000000000 + int i),
     extname = example_extname,
     toLowerCase = (\<lambda>s. s),
     utf8_decode = (\<lambda>b. b),
     MAX_STRING_LENGTH = 536870888,
     bedrock_send = (\<lambda>modelId body. None),
     OPENAI_API_KEY = None,
     openai_create = (\<lambda>messages. None),
     JSON_parse = (\<lambda>s. if s = ''{}'' then Some (JObject []) else None) \<rparr>"

definition example_store :: MemStorage where
  "example_store =
     snd (createAnalysis
       (snd (createProjectFile
          (snd (createProject new_MemStorage ''p1'' 1000 ''u1'' \<lparr> ins_name = ''demo'' \<rparr>))
          ''f-old'' 1001 ''p1''
          \<lparr> ins_path = ''old.js'', ins_content = ''var x;'',
            ins_language = Some ''javascript'', ins_size = Some 6 \<rparr>))
       ''a1'' 1002 ''p1'' parse_fallback)"

definition example_batch :: "Multer_File list" where
  "example_batch =
     [\<lparr> originalname = ''a.py'', buffer = ''print(1)'', size_bytes = 8 \<rparr>,
      \<lparr> originalname = ''b.ts'', buffer = ''let x=1;'', size_bytes = 8 \<rparr>]"

definition huge_buffer :: string where
  "huge_buffer = replicate 536870889 CHR ''a''"

definition failing_batch :: "Multer_File list" where
  "failing_batch =
     [\<lparr> originalname = ''a.py'', buffer = ''print(1)'', size_bytes = 8 \<rparr>,
      \<lparr> originalname = ''big.txt'', buffer = huge_buffer, size_bytes = 536870889 \<rparr>]"

definition env_replying :: "string \<Rightarrow> env" where
  "env_replying reply = example_env\<lparr>bedrock_send := (\<lambda>modelId body. Some reply)\<rparr>"

definition example_files :: "FileData list" where
  "example_files = [\<lparr> fd_path = ''a.py'', fd_content = ''print(1)'', fd_language = Some ''python'' \<rparr>]"

section \<open>Auxiliary facts\<close>

subsection \<open>Deleting the entries of one project\<close>

lemma impl_of_fold_delete:
  "DAList.impl_of (fold (\<lambda>key m. snd (Map_delete key m)) ks m) =
     filter (\<lambda>kv. fst kv \<notin> set ks) (DAList.impl_of m)"
proof (induction ks arbitrary: m)
  case Nil
  then show ?case by simp
next
  case (Cons k ks)
  have "filter (\<lambda>kv. fst kv \<notin> set ks) (AList.delete k (DAList.impl_of m)) =
        filter (\<lambda>kv. fst kv \<notin> set (k # ks)) (DAList.impl_of m)"
    by (auto simp: AList.delete_eq intro: filter_cong)
  with Cons show ?case
    by (simp add: Map_delete_def DAList.delete.rep_eq)
qed

lemma lookup_entry:
  "(k, v) \<in> set (DAList.impl_of m) \<Longrightarrow> DAList.lookup m k = Some v"
  by (simp add: DAList.lookup.rep_eq)

lemma impl_of_delete_where:
  "DAList.impl_of (fold (\<lambda>key m. snd (Map_delete key m))
       (filter (\<lambda>key. map_option f (Map_get m key) = Some p) (Map_keys m)) m) =
     filter (\<lambda>kv. f (snd kv) \<noteq> p) (DAList.impl_of m)"
proof -
  have "\<And>kv. kv \<in> set (DAList.impl_of m) \<Longrightarrow>
          (fst kv \<notin> set (filter (\<lambda>key. map_option f (Map_get m key) = Some p) (Map_keys m)))
          = (f (snd kv) \<noteq> p)"
  proof -
    fix kv assume "kv \<in> set (DAList.impl_of m)"
    then have "DAList.lookup m (fst kv) = Some (snd kv)"
      using lookup_entry [of "fst kv" "snd kv" m] by simp
    moreover have "fst kv \<in> set (Map_keys m)"
      using \<open>kv \<in> set (DAList.impl_of m)\<close> by (simp add: Map_keys_def)
    ultimately show "(fst kv \<notin> set (filter (\<lambda>key. map_option f (Map_get m key) = Some p) (Map_keys m)))
          = (f (snd kv) \<noteq> p)"
      by (simp add: Map_get_def)
  qed
  then show ?thesis
    unfolding impl_of_fold_delete by (intro filter_cong) auto
qed

lemma Map_values_delete_where:
  "Map_values (fold (\<lambda>key m. snd (Map_delete key m))
       (filter (\<lambda>key. map_option f (Map_get m key) = Some p) (Map_keys m)) m) =
     filter (\<lambda>v. f v \<noteq> p) (Map_values m)"
  unfolding Map_values_def impl_of_delete_where by (simp add: filter_map comp_def)

lemma projectFiles_deleteProjectFiles:
  "DAList.impl_of (projectFiles (snd (deleteProjectFiles st pid))) =
     filter (\<lambda>kv. file_projectId (snd kv) \<noteq> pid) (DAList.impl_of (projectFiles st))"
  by (simp add: deleteProjectFiles_def Let_def impl_of_delete_where del: map_option_eq_Some)

lemma deleteProjectFiles_frame:
  "projects (snd (deleteProjectFiles st pid)) = projects st"
  "analysisResults (snd (deleteProjectFiles st pid)) = analysisResults st"
  "users (snd (deleteProjectFiles st pid)) = users st"
  by (simp_all add: deleteProjectFiles_def Let_def)

lemma getProjectFiles_deleteProjectFiles:
  "getProjectFiles (snd (deleteProjectFiles st pid)) q =
     (if q = pid then [] else getProjectFiles st q)"
proof (cases "q = pid")
  case True
  then show ?thesis
    unfolding getProjectFiles_def Map_values_def projectFiles_deleteProjectFiles
    by (simp add: filter_map comp_def)
next
  case False
  then have "(\<lambda>x. file_projectId (snd x) \<noteq> pid \<and> file_projectId (snd x) = q) =
             (\<lambda>x::string \<times> ProjectFile. file_projectId (snd x) = q)"
    by auto
  with False show ?thesis
    unfolding getProjectFiles_def Map_values_def projectFiles_deleteProjectFiles
    by (simp add: filter_map comp_def)
qed

subsection \<open>The head of a sorted list, and the values after a set\<close>

lemma sort_key_head:
  fixes f :: "'a \<Rightarrow> int"
  assumes "sort_key f xs = y # ys"
  shows "y \<in> set xs \<and> (\<forall>x\<in>set xs. f y \<le> f x)"
proof -
  have s: "sorted (map f (y # ys))"
    using sorted_sort_key [of f xs] assms by simp
  have m: "set (y # ys) = set xs"
    using set_sort [of f xs] assms by simp
  from s have "\<forall>z\<in>set (y # ys). f y \<le> f z" by auto
  with m show ?thesis by auto
qed

lemma set_AList_update:
  "set (AList.update k v al) \<subseteq> insert (k, v) (set al) \<and> (k, v) \<in> set (AList.update k v al)"
  by (induction al) auto

lemma set_values_Map_set:
  "set (Map_values (Map_set k v m)) \<subseteq> insert v (set (Map_values m))"
  "v \<in> set (Map_values (Map_set k v m))"
proof -
  show "set (Map_values (Map_set k v m)) \<subseteq> insert v (set (Map_values m))"
    using set_AList_update [of k v "DAList.impl_of m"]
    by (auto simp: Map_values_def Map_set_def DAList.update.rep_eq)
  show "v \<in> set (Map_values (Map_set k v m))"
    using set_AList_update [of k v "DAList.impl_of m"]
    by (force simp: Map_values_def Map_set_def DAList.update.rep_eq)
qed

lemma Map_get_Map_set:
  "Map_get (Map_set k v m) k' = (if k' = k then Some v else Map_get m k')"
  by (simp add: Map_get_def Map_set_def)

lemma getLatestAnalysis_None:
  "getLatestAnalysis st pid = None \<longleftrightarrow>
     (\<forall>a\<in>set (Map_values (analysisResults st)). analysis_projectId a \<noteq> pid)"
proof -
  let ?xs = "filter (\<lambda>a. analysis_projectId a = pid) (Map_values (analysisResults st))"
  have "getLatestAnalysis st pid = None \<longleftrightarrow> sort_key (\<lambda>a. - created_ms a) ?xs = []"
    by (simp add: getLatestAnalysis_def Let_def split: list.splits)
  also have "\<dots> \<longleftrightarrow> ?xs = []"
    using set_sort [of "\<lambda>a. - created_ms a" ?xs] by (metis set_empty)
  also have "\<dots> \<longleftrightarrow> (\<forall>a\<in>set (Map_values (analysisResults st)). analysis_projectId a \<noteq> pid)"
    by (simp add: filter_empty_conv)
  finally show ?thesis .
qed

lemma getLatestAnalysis_Some:
  assumes "getLatestAnalysis st pid = Some a"
  shows "a \<in> set (Map_values (analysisResults st)) \<and> analysis_projectId a = pid
         \<and> (\<forall>b\<in>set (Map_values (analysisResults st)).
               analysis_projectId b = pid \<longrightarrow> created_ms b \<le> created_ms a)"
proof -
  let ?xs = "filter (\<lambda>a. analysis_projectId a = pid) (Map_values (analysisResults st))"
  from assms obtain ys where "sort_key (\<lambda>a. - created_ms a) ?xs = a # ys"
    by (auto simp: getLatestAnalysis_def Let_def split: list.splits)
  from sort_key_head [OF this] show ?thesis by auto
qed

subsection \<open>Storing the records of a batch\<close>

lemma mset_AList_update:
  "distinct (map fst al) \<Longrightarrow>
     mset (AList.update k v al) = add_mset (k, v) (mset (AList.delete k al))"
proof (induction al)
  case Nil
  then show ?case by simp
next
  case (Cons p al)
  show ?case
  proof (cases "fst p = k")
    case True
    with Cons.prems have "k \<notin> fst ` set al" by auto
    then have "AList.delete k al = al" by simp
    with True show ?thesis by (cases p) simp
  next
    case False
    with Cons show ?thesis by (cases p) simp
  qed
qed

lemma mset_values_Map_set:
  "mset (filter P (Map_values (Map_set k v m))) =
     (if P v then {#v#} else {#}) + mset (filter P (Map_values (DAList.delete k m)))"
proof -
  have "mset (Map_values (Map_set k v m)) = add_mset v (mset (Map_values (DAList.delete k m)))"
    using arg_cong [OF mset_AList_update [of "DAList.impl_of m" k v], of "image_mset snd"]
    by (simp add: Map_values_def Map_set_def DAList.update.rep_eq DAList.delete.rep_eq)
  then have "filter_mset P (mset (Map_values (Map_set k v m))) =
             filter_mset P (add_mset v (mset (Map_values (DAList.delete k m))))"
    by simp
  then show ?thesis by simp
qed

lemma values_delete_no_entry:
  assumes "\<forall>v. DAList.lookup m k = Some v \<longrightarrow> \<not> P v"
  shows "filter P (Map_values (DAList.delete k m)) = filter P (Map_values m)"
proof -
  have "\<And>kv. kv \<in> set (DAList.impl_of m) \<Longrightarrow> P (snd kv) \<Longrightarrow> fst kv \<noteq> k"
  proof
    fix kv assume a: "kv \<in> set (DAList.impl_of m)" "P (snd kv)" "fst kv = k"
    obtain k' v' where kv: "kv = (k', v')" by (cases kv)
    from a(1) kv have "(k', v') \<in> set (DAList.impl_of m)" by simp
    from lookup_entry [OF this] a(3) kv have "DAList.lookup m k = Some (snd kv)"
      by simp
    with assms \<open>P (snd kv)\<close> show False by simp
  qed
  then have "filter (\<lambda>kv. P (snd kv)) (filter (\<lambda>kv. fst kv \<noteq> k) (DAList.impl_of m)) =
        filter (\<lambda>kv. P (snd kv)) (DAList.impl_of m)"
    unfolding filter_filter by (intro filter_cong) auto
  moreover have "AList.delete k (DAList.impl_of m) = filter (\<lambda>kv. fst kv \<noteq> k) (DAList.impl_of m)"
    by (auto simp: AList.delete_eq intro: filter_cong)
  ultimately show ?thesis
    by (simp add: Map_values_def DAList.delete.rep_eq filter_map comp_def)
qed

lemma lookup_fold_store_other:
  "k \<notin> file_id ` set rs \<Longrightarrow>
     DAList.lookup (fold (\<lambda>r. Map_set (file_id r) r) rs m) k = DAList.lookup m k"
  by (induction rs arbitrary: m) (auto simp: Map_set_def)

lemma mset_fold_store:
  assumes "distinct (map file_id rs)"
    and "\<forall>r\<in>set rs. P r"
    and "\<forall>k v. DAList.lookup m k = Some v \<and> P v \<longrightarrow> k \<notin> file_id ` set rs"
  shows "mset (filter P (Map_values (fold (\<lambda>r. Map_set (file_id r) r) rs m))) =
         mset (filter P (Map_values m)) + mset rs"
  using assms
proof (induction rs arbitrary: m)
  case Nil
  then show ?case by simp
next
  case (Cons r rs)
  let ?m' = "Map_set (file_id r) r m"
  have no: "\<forall>v. DAList.lookup m (file_id r) = Some v \<longrightarrow> \<not> P v"
    using Cons.prems(3) by auto
  have step: "mset (filter P (Map_values ?m')) = add_mset r (mset (filter P (Map_values m)))"
    using Cons.prems(2) mset_values_Map_set [of P "file_id r" r m]
      values_delete_no_entry [OF no]
    by simp
  have inv: "\<forall>k v. DAList.lookup ?m' k = Some v \<and> P v \<longrightarrow> k \<notin> file_id ` set rs"
  proof (intro allI impI)
    fix k v assume h: "DAList.lookup ?m' k = Some v \<and> P v"
    show "k \<notin> file_id ` set rs"
    proof (cases "k = file_id r")
      case True
      with Cons.prems(1) show ?thesis by auto
    next
      case False
      with h have "DAList.lookup m k = Some v \<and> P v" by (simp add: Map_set_def)
      with Cons.prems(3) show ?thesis by auto
    qed
  qed
  have "mset (filter P (Map_values (fold (\<lambda>r. Map_set (file_id r) r) rs ?m'))) =
        mset (filter P (Map_values ?m')) + mset rs"
    using Cons.IH [of ?m'] Cons.prems(1,2) inv by simp
  with step show ?case by simp
qed

lemma set_fold_store:
  "set (Map_values (fold (\<lambda>r. Map_set (file_id r) r) rs m)) \<subseteq> set rs \<union> set (Map_values m)"
proof (induction rs arbitrary: m)
  case Nil
  then show ?case by simp
next
  case (Cons r rs)
  have "set (Map_values (fold (\<lambda>r. Map_set (file_id r) r) rs (Map_set (file_id r) r m)))
          \<subseteq> set rs \<union> set (Map_values (Map_set (file_id r) r m))"
    by (rule Cons.IH)
  with set_values_Map_set(1) [of "file_id r" r m] show ?case by auto
qed

lemma Buffer_toString_Inr:
  "Buffer_toString e buf = Inr text \<Longrightarrow> text = utf8_decode e buf"
  by (auto simp: Buffer_toString_def Let_def split: if_splits)

lemma upload_loop_success:
  "upload_loop e pid fs i st acc tot = (Inr (ups, n), st') \<Longrightarrow>
     ups = acc @ uploaded_records_from e pid i fs
     \<and> st' = st\<lparr>projectFiles :=
          fold (\<lambda>r. Map_set (file_id r) r) (uploaded_records_from e pid i fs) (projectFiles st)\<rparr>"
proof (induction fs arbitrary: i st acc tot)
  case Nil
  then show ?case by simp
next
  case (Cons fl rest)
  from Cons.prems obtain decoded where t: "Buffer_toString e (buffer fl) = Inr decoded"
    by (cases "Buffer_toString e (buffer fl)") auto
  have dec: "decoded = utf8_decode e (buffer fl)"
    using Buffer_toString_Inr [OF t] .
  let ?r = "uploaded_record e pid i fl"
  let ?st = "st\<lparr>projectFiles := Map_set (file_id ?r) ?r (projectFiles st)\<rparr>"
  have cp: "createProjectFile st (randomUUID e i) (Date_now e i) pid
              \<lparr> ins_path = originalname fl, ins_content = decoded,
                ins_language = Some (detectLanguage e (originalname fl)),
                ins_size = Some (size_bytes fl) \<rparr> = (?r, ?st)"
    by (simp add: createProjectFile_def uploaded_record_def dec Let_def)
  from Cons.prems have
    "upload_loop e pid rest (Suc i) ?st (acc @ [?r])
        (tot + length (split CHR 0x0A decoded)) = (Inr (ups, n), st')"
    by (simp add: t cp Let_def)
  from Cons.IH [OF this] show ?case by simp
qed

lemma upload_loop_failure:
  "upload_loop e pid fs i st acc tot = (Inl err, st') \<Longrightarrow>
     \<exists>k<length fs. Buffer_toString e (buffer (fs ! k)) = Inl err
       \<and> st' = st\<lparr>projectFiles :=
          fold (\<lambda>r. Map_set (file_id r) r) (uploaded_records_from e pid i (take k fs))
            (projectFiles st)\<rparr>"
proof (induction fs arbitrary: i st acc tot)
  case Nil
  then show ?case by simp
next
  case (Cons fl rest)
  show ?case
  proof (cases "Buffer_toString e (buffer fl)")
    case (Inl a)
    with Cons.prems have "a = err" "st' = st" by auto
    with Inl show ?thesis by (intro exI [of _ 0]) simp
  next
    case (Inr decoded)
    have dec: "decoded = utf8_decode e (buffer fl)"
      using Buffer_toString_Inr [OF Inr] .
    let ?r = "uploaded_record e pid i fl"
    let ?st = "st\<lparr>projectFiles := Map_set (file_id ?r) ?r (projectFiles st)\<rparr>"
    have cp: "createProjectFile st (randomUUID e i) (Date_now e i) pid
              \<lparr> ins_path = originalname fl, ins_content = decoded,
                ins_language = Some (detectLanguage e (originalname fl)),
                ins_size = Some (size_bytes fl) \<rparr> = (?r, ?st)"
      by (simp add: createProjectFile_def uploaded_record_def dec Let_def)
    from Cons.prems have
      "upload_loop e pid rest (Suc i) ?st (acc @ [?r])
        (tot + length (split CHR 0x0A decoded)) = (Inl err, st')"
      by (simp add: Inr cp Let_def)
    from Cons.IH [OF this] obtain k where k: "k < length rest"
      "Buffer_toString e (buffer (rest ! k)) = Inl err"
      "st' = ?st\<lparr>projectFiles :=
          fold (\<lambda>r. Map_set (file_id r) r) (uploaded_records_from e pid (Suc i) (take k rest))
            (projectFiles ?st)\<rparr>"
      by blast
    then show ?thesis by (intro exI [of _ "Suc k"]) simp
  qed
qed

lemma uploaded_records_from_props:
  "length (uploaded_records_from e pid i fs) = length fs"
  "map file_id (uploaded_records_from e pid i fs) = map (randomUUID e) [i..<i + length fs]"
  "\<forall>r\<in>set (uploaded_records_from e pid i fs). file_projectId r = pid"
  "map language (uploaded_records_from e pid i fs) =
     map (\<lambda>f. Some (detectLanguage e (originalname f))) fs"
proof -
  show "length (uploaded_records_from e pid i fs) = length fs"
    by (induction fs arbitrary: i) auto
  show "map file_id (uploaded_records_from e pid i fs) = map (randomUUID e) [i..<i + length fs]"
    by (induction fs arbitrary: i) (auto simp: uploaded_record_def upt_rec)
  show "\<forall>r\<in>set (uploaded_records_from e pid i fs). file_projectId r = pid"
    by (induction fs arbitrary: i) (auto simp: uploaded_record_def)
  show "map language (uploaded_records_from e pid i fs) =
     map (\<lambda>f. Some (detectLanguage e (originalname f))) fs"
    by (induction fs arbitrary: i) (auto simp: uploaded_record_def)
qed

lemma upload_loop_first_failure:
  "k < length fs \<Longrightarrow> Buffer_toString e (buffer (fs ! k)) = Inl err \<Longrightarrow>
   (\<forall>j<k. \<exists>t. Buffer_toString e (buffer (fs ! j)) = Inr t) \<Longrightarrow>
   upload_loop e pid fs i st acc tot =
     (Inl err, st\<lparr>projectFiles :=
        fold (\<lambda>r. Map_set (file_id r) r) (uploaded_records_from e pid i (take k fs))
          (projectFiles st)\<rparr>)"
proof (induction fs arbitrary: k i st acc tot)
  case Nil
  then show ?case by simp
next
  case (Cons fl rest)
  show ?case
  proof (cases k)
    case 0
    with Cons.prems(2) show ?thesis by simp
  next
    case (Suc k')
    from Cons.prems(3) Suc obtain decoded where d: "Buffer_toString e (buffer fl) = Inr decoded"
      by fastforce
    have dec: "decoded = utf8_decode e (buffer fl)"
      using Buffer_toString_Inr [OF d] .
    let ?r = "uploaded_record e pid i fl"
    let ?st = "st\<lparr>projectFiles := Map_set (file_id ?r) ?r (projectFiles st)\<rparr>"
    have cp: "createProjectFile st (randomUUID e i) (Date_now e i) pid
              \<lparr> ins_path = originalname fl, ins_content = decoded,
                ins_language = Some (detectLanguage e (originalname fl)),
                ins_size = Some (size_bytes fl) \<rparr> = (?r, ?st)"
      by (simp add: createProjectFile_def uploaded_record_def dec Let_def)
    have k': "k' < length rest" using Cons.prems(1) Suc by simp
    have e': "Buffer_toString e (buffer (rest ! k')) = Inl err"
      using Cons.prems(2) Suc by simp
    have a': "\<forall>j<k'. \<exists>t. Buffer_toString e (buffer (rest ! j)) = Inr t"
    proof (intro allI impI)
      fix j assume "j < k'"
      then have "Suc j < k" using Suc by simp
      with Cons.prems(3) have "\<exists>t. Buffer_toString e (buffer ((fl # rest) ! Suc j)) = Inr t"
        by blast
      then show "\<exists>t. Buffer_toString e (buffer (rest ! j)) = Inr t" by simp
    qed
    from Cons.IH [OF k' e' a', of "Suc i" ?st "acc @ [?r]"
        "tot + length (split CHR 0x0A decoded)"]
    show ?thesis by (simp add: d cp Let_def Suc)
  qed
qed

lemma lookup_in_values:
  "DAList.lookup m k = Some v \<Longrightarrow> v \<in> set (Map_values m)"
  by (force simp: DAList.lookup.rep_eq Map_values_def dest: map_of_SomeD)

lemma js_or_nonempty: "d \<noteq> [] \<Longrightarrow> js_or v d \<noteq> []"
  by (simp add: js_or_def split: option.splits)

lemma detectLanguage_nonempty: "detectLanguage e filename \<noteq> []"
  by (simp add: detectLanguage_def Let_def js_or_nonempty)

subsection \<open>The upload route\<close>

lemma upload_route_cases:
  "upload_route e st pid files =
     (if files = None \<or> files = Some [] then (Response 400 (Message ''No files uploaded''), st)
      else if getProject st pid = None then (Response 404 (Message ''Project not found''), st)
      else (case upload_loop e pid (the files) 0 (snd (deleteProjectFiles st pid)) [] 0 of
              (Inl err, st2) \<Rightarrow> (Response 500 (Message ''Failed to upload files''), st2)
            | (Inr (uploadedFiles, totalLines), st2) \<Rightarrow>
                (Response 200
                   (UploadSummary ''Files uploaded successfully'' (length uploadedFiles)
                      (length (remdups (filter truthy (map language uploadedFiles)))) totalLines),
                 snd (updateProject st2 pid
                        (no_Project_updates\<lparr>
                           upd_fileCount := Some (length uploadedFiles),
                           upd_languageCount :=
                             Some (length (remdups (filter truthy (map language uploadedFiles)))),
                           upd_linesProcessed := Some totalLines,
                           upd_lastScanAt := Some (Some (Date_now e (length (the files))))\<rparr>)))))"
  by (auto simp: upload_route_def Let_def split: option.splits prod.splits sum.splits)

lemma upload_success_state:
  assumes "status (fst (upload_route e st pid (Some fs))) = 200"
  shows "\<exists>project tot.
     getProject st pid = Some project
     \<and> projectFiles (snd (upload_route e st pid (Some fs))) =
         fold (\<lambda>r. Map_set (file_id r) r) (uploaded_records e pid fs)
           (projectFiles (snd (deleteProjectFiles st pid)))
     \<and> getProject (snd (upload_route e st pid (Some fs))) pid =
         Some (project\<lparr>fileCount := length fs,
            languageCount := length (remdups (filter truthy
               (map language (uploaded_records e pid fs)))),
            lastScanAt := Some (Date_now e (length fs)),
            linesProcessed := tot\<rparr>)"
proof -
  let ?st1 = "snd (deleteProjectFiles st pid)"
  from assms have ne: "fs \<noteq> []" and "getProject st pid \<noteq> None"
    by (auto simp: upload_route_cases split: if_splits)
  then obtain project where p: "getProject st pid = Some project" by auto
  obtain res st2 where l: "upload_loop e pid fs 0 ?st1 [] 0 = (res, st2)"
    by (cases "upload_loop e pid fs 0 ?st1 [] 0")
  from assms ne p l obtain ups tot where res: "res = Inr (ups, tot)"
    by (cases res) (auto simp: upload_route_cases)
  from upload_loop_success [OF l [unfolded res]]
  have ups: "ups = uploaded_records e pid fs"
    and st2: "st2 = ?st1\<lparr>projectFiles :=
       fold (\<lambda>r. Map_set (file_id r) r) (uploaded_records e pid fs) (projectFiles ?st1)\<rparr>"
    by (simp_all add: uploaded_records_def)
  have len: "length ups = length fs"
    by (simp add: ups uploaded_records_def uploaded_records_from_props(1))
  have p2: "Map_get (projects st2) pid = Some project"
    using p by (simp add: st2 deleteProjectFiles_frame getProject_def)
  let ?u = "no_Project_updates\<lparr>
                           upd_fileCount := Some (length ups),
                           upd_languageCount :=
                             Some (length (remdups (filter truthy (map language ups)))),
                           upd_linesProcessed := Some tot,
                           upd_lastScanAt := Some (Some (Date_now e (length fs)))\<rparr>"
  have sp: "spread_Project project ?u = project\<lparr>fileCount := length fs,
            languageCount := length (remdups (filter truthy (map language ups))),
            lastScanAt := Some (Date_now e (length fs)),
            linesProcessed := tot\<rparr>"
    by (cases project) (simp add: spread_Project_def no_Project_updates_def or_old_def len)
  have r: "snd (upload_route e st pid (Some fs)) = snd (updateProject st2 pid ?u)"
    using ne p l res by (simp add: upload_route_cases)
  have up: "snd (updateProject st2 pid ?u) =
      st2\<lparr>projects := Map_set pid (spread_Project project ?u) (projects st2)\<rparr>"
    using p2 by (simp add: updateProject_def Let_def)
  have a: "projectFiles (snd (upload_route e st pid (Some fs))) =
         fold (\<lambda>r. Map_set (file_id r) r) (uploaded_records e pid fs) (projectFiles ?st1)"
    unfolding r up by (simp add: st2)
  have b: "getProject (snd (upload_route e st pid (Some fs))) pid =
         Some (project\<lparr>fileCount := length fs,
            languageCount := length (remdups (filter truthy
               (map language (uploaded_records e pid fs)))),
            lastScanAt := Some (Date_now e (length fs)),
            linesProcessed := tot\<rparr>)"
    unfolding r up by (simp add: getProject_def Map_get_Map_set sp [unfolded ups] ups)
  from p a b show ?thesis by blast
qed

lemma no_project_files_after_delete:
  "DAList.lookup (projectFiles (snd (deleteProjectFiles st pid))) k = Some v \<Longrightarrow>
     file_projectId v \<noteq> pid"
proof
  assume l: "DAList.lookup (projectFiles (snd (deleteProjectFiles st pid))) k = Some v"
    and p: "file_projectId v = pid"
  from lookup_in_values [OF l] p
  have "v \<in> set (getProjectFiles (snd (deleteProjectFiles st pid)) pid)"
    by (simp add: getProjectFiles_def)
  then show False by (simp add: getProjectFiles_deleteProjectFiles)
qed

lemma getProjectFiles_fold_store_mset:
  assumes "distinct (map (randomUUID e) [0..<length fs])"
  shows "mset (filter (\<lambda>f. file_projectId f = pid)
           (Map_values (fold (\<lambda>r. Map_set (file_id r) r) (uploaded_records e pid fs)
              (projectFiles (snd (deleteProjectFiles st pid)))))) =
         mset (uploaded_records e pid fs)"
proof -
  let ?m = "projectFiles (snd (deleteProjectFiles st pid))"
  have d: "distinct (map file_id (uploaded_records e pid fs))"
    using assms by (simp add: uploaded_records_def uploaded_records_from_props(2))
  have a: "\<forall>r\<in>set (uploaded_records e pid fs). file_projectId r = pid"
    by (simp add: uploaded_records_def uploaded_records_from_props(3))
  have i: "\<forall>k v. DAList.lookup ?m k = Some v \<and> file_projectId v = pid \<longrightarrow>
             k \<notin> file_id ` set (uploaded_records e pid fs)"
    using no_project_files_after_delete [of st pid] by blast
  have z: "filter (\<lambda>f. file_projectId f = pid) (Map_values ?m) = []"
    using getProjectFiles_deleteProjectFiles [of st pid pid] by (simp add: getProjectFiles_def)
  from mset_fold_store [of "uploaded_records e pid fs" "\<lambda>f. file_projectId f = pid" ?m, OF d a i]
  show ?thesis by (simp only: z) simp
qed

lemma getProjectFiles_fold_store_set:
  "set (filter (\<lambda>f. file_projectId f = pid)
           (Map_values (fold (\<lambda>r. Map_set (file_id r) r) rs
              (projectFiles (snd (deleteProjectFiles st pid)))))) \<subseteq> set rs"
proof
  fix x
  let ?m = "projectFiles (snd (deleteProjectFiles st pid))"
  assume "x \<in> set (filter (\<lambda>f. file_projectId f = pid)
           (Map_values (fold (\<lambda>r. Map_set (file_id r) r) rs ?m)))"
  then have x: "x \<in> set (Map_values (fold (\<lambda>r. Map_set (file_id r) r) rs ?m))"
    and p: "file_projectId x = pid" by auto
  from x set_fold_store [of rs ?m] have "x \<in> set rs \<or> x \<in> set (Map_values ?m)" by auto
  moreover have "x \<notin> set (Map_values ?m)"
  proof
    assume "x \<in> set (Map_values ?m)"
    with p have "x \<in> set (getProjectFiles (snd (deleteProjectFiles st pid)) pid)"
      by (simp add: getProjectFiles_def)
    then show False by (simp add: getProjectFiles_deleteProjectFiles)
  qed
  ultimately show "x \<in> set rs" by simp
qed

lemma upload_stored_files:
  assumes "status (fst (upload_route e st pid (Some fs))) = 200"
    and "distinct (map (randomUUID e) [0..<length fs])"
  shows "mset (getProjectFiles (snd (upload_route e st pid (Some fs))) pid) =
           mset (uploaded_records e pid fs)
         \<and> length (getProjectFiles (snd (upload_route e st pid (Some fs))) pid) = length fs"
proof -
  from upload_success_state [OF assms(1)]
  have pf: "projectFiles (snd (upload_route e st pid (Some fs))) =
         fold (\<lambda>r. Map_set (file_id r) r) (uploaded_records e pid fs)
           (projectFiles (snd (deleteProjectFiles st pid)))"
    by blast
  have m: "mset (getProjectFiles (snd (upload_route e st pid (Some fs))) pid) =
           mset (uploaded_records e pid fs)"
    unfolding getProjectFiles_def pf by (rule getProjectFiles_fold_store_mset [OF assms(2)])
  from arg_cong [OF m, of size]
  have "length (getProjectFiles (snd (upload_route e st pid (Some fs))) pid) = length fs"
    by (simp add: uploaded_records_def uploaded_records_from_props(1))
  with m show ?thesis by simp
qed

subsection \<open>The example store and the failing upload\<close>

lemma length_huge_buffer: "length huge_buffer = 536870889"
  by (simp only: huge_buffer_def length_replicate)

lemma example_store_fields:
  "DAList.impl_of (projects example_store) =
     [(''p1'', \<lparr> project_id = ''p1'', userId = ''u1'', name = ''demo'', fileCount = 0,
         languageCount = 0, lastScanAt = None, linesProcessed = 0,
         project_createdAt = Some 1000 \<rparr>)]"
  "DAList.impl_of (projectFiles example_store) =
     [(''f-old'', \<lparr> file_id = ''f-old'', file_projectId = ''p1'', path = ''old.js'',
         content = ''var x;'', language = Some ''javascript'', file_size = Some 6,
         file_createdAt = Some 1001 \<rparr>)]"
  "DAList.impl_of (analysisResults example_store) =
     [(''a1'', \<lparr> analysis_id = ''a1'', analysis_projectId = ''p1'',
         analysis_createdAt = Some 1002, analysisData = parse_fallback \<rparr>)]"
  by (simp_all add: example_store_def createAnalysis_def createProjectFile_def createProject_def
        new_MemStorage_def Let_def Map_set_def DAList.update.rep_eq DAList.empty.rep_eq)

lemma example_getProject:
  "getProject example_store ''p1'' =
     Some \<lparr> project_id = ''p1'', userId = ''u1'', name = ''demo'', fileCount = 0,
         languageCount = 0, lastScanAt = None, linesProcessed = 0,
         project_createdAt = Some 1000 \<rparr>"
  by (simp add: getProject_def Map_get_def DAList.lookup.rep_eq example_store_fields)

lemma example_getProjectFiles:
  "getProjectFiles example_store ''p1'' =
     [\<lparr> file_id = ''f-old'', file_projectId = ''p1'', path = ''old.js'',
         content = ''var x;'', language = Some ''javascript'', file_size = Some 6,
         file_createdAt = Some 1001 \<rparr>]"
  by (simp add: getProjectFiles_def Map_values_def example_store_fields)

lemma example_after_delete:
  "DAList.impl_of (projectFiles (snd (deleteProjectFiles example_store ''p1''))) = []"
  by (simp add: projectFiles_deleteProjectFiles example_store_fields)

lemma failing_upload_result:
  "upload_route example_env example_store ''p1'' (Some failing_batch) =
     (Response 500 (Message ''Failed to upload files''),
      (snd (deleteProjectFiles example_store ''p1''))\<lparr>projectFiles :=
         Map_set ''uuid-'' (uploaded_record example_env ''p1'' 0
              \<lparr> originalname = ''a.py'', buffer = ''print(1)'', size_bytes = 8 \<rparr>)
           (projectFiles (snd (deleteProjectFiles example_store ''p1'')))\<rparr>)"
  by (simp add: upload_route_cases example_getProject failing_batch_def Buffer_toString_def
        example_env_def length_huge_buffer Let_def createProjectFile_def uploaded_record_def)

subsection \<open>The two ways the upload loop ends\<close>

lemma upload_decode_failure:
  assumes "getProject st pid \<noteq> None" and "k < length fs"
    and "Buffer_toString e (buffer (fs ! k)) = Inl err"
    and "\<forall>j<k. \<exists>t. Buffer_toString e (buffer (fs ! j)) = Inr t"
  shows "upload_route e st pid (Some fs) =
     (Response 500 (Message ''Failed to upload files''),
      (snd (deleteProjectFiles st pid))\<lparr>projectFiles :=
         fold (\<lambda>r. Map_set (file_id r) r) (uploaded_records e pid (take k fs))
           (projectFiles (snd (deleteProjectFiles st pid)))\<rparr>)"
proof -
  from assms(2) have ne: "fs \<noteq> []" by auto
  from upload_loop_first_failure [OF assms(2,3,4), of pid 0 "snd (deleteProjectFiles st pid)" "[]" 0]
  show ?thesis using assms(1) ne
    by (auto simp: upload_route_cases uploaded_records_def)
qed

lemma upload_all_decoded:
  assumes "getProject st pid \<noteq> None" and "fs \<noteq> []"
    and "\<forall>j<length fs. \<exists>t. Buffer_toString e (buffer (fs ! j)) = Inr t"
  shows "status (fst (upload_route e st pid (Some fs))) = 200"
proof -
  obtain res st2 where l: "upload_loop e pid fs 0 (snd (deleteProjectFiles st pid)) [] 0 = (res, st2)"
    by (cases "upload_loop e pid fs 0 (snd (deleteProjectFiles st pid)) [] 0")
  have "\<exists>ups tot. res = Inr (ups, tot)"
  proof (cases res)
    case (Inl err)
    from upload_loop_failure [OF l [unfolded Inl]] assms(3) show ?thesis by fastforce
  next
    case (Inr v)
    then show ?thesis by (cases v) simp
  qed
  with assms(1,2) l show ?thesis
    by (auto simp: upload_route_cases)
qed

subsection \<open>The dispatcher\<close>

lemma try_models_nova:
  "try_models e messages prompt systemPrompt modelsToTry =
     bedrock_send e ''amazon.nova-lite-v1:0''
       (NovaBody (map (\<lambda>msg. (if fst msg = ''user'' then ''user'' else ''assistant'', snd msg))
                          messages))"
  by (simp add: modelsToTry_def try_model_def startsWith_def split: option.splits)

lemma invokeAI_fails_iff:
  "(\<exists>err. invokeAI e prompt systemPrompt = Inl err) \<longleftrightarrow> all_backends_fail e prompt systemPrompt"
  by (auto simp: invokeAI_def all_backends_fail_def Let_def split: option.splits if_splits)

lemma analyzeCodebase_total: "\<exists>v. analyzeCodebase e files = Inr v"
  by (simp add: analyzeCodebase_def split: sum.splits)

lemma well_typed_parse_fallback: "well_typed_analysis parse_fallback"
  by (simp add: well_typed_analysis_def parse_fallback_def json_field_def is_object_def
        is_array_def)

lemma well_typed_demo_fallback: "well_typed_analysis (demo_fallback files)"
  by (simp add: well_typed_analysis_def demo_fallback_def json_field_def is_object_def
        is_array_def)

subsection \<open>The example upload and the example replies\<close>

lemma example_upload_status:
  "status (fst (upload_route example_env example_store ''p1'' (Some example_batch))) = 200"
  by (simp add: upload_route_cases example_getProject example_batch_def Buffer_toString_def
        example_env_def Let_def createProjectFile_def split: prod.splits)

lemma example_uuids_distinct:
  "distinct (map (randomUUID example_env) [0..<length example_batch])"
  by (simp add: example_env_def example_batch_def upt_rec)

lemma example_detectLanguage:
  "detectLanguage example_env ''a.py'' = ''python''"
  "detectLanguage example_env ''b.ts'' = ''typescript''"
  by (simp_all add: detectLanguage_def example_env_def example_extname_def languageMap_def
        js_or_def)

lemma example_upload_project:
  "map_option (\<lambda>p. (fileCount p, languageCount p))
     (getProject (snd (upload_route example_env example_store ''p1'' (Some example_batch))) ''p1'')
   = Some (2, 2)"
proof -
  have "map language (uploaded_records example_env ''p1'' example_batch) =
          [Some ''python'', Some ''typescript'']"
    by (simp add: uploaded_records_def uploaded_record_def example_batch_def
          example_detectLanguage)
  then have "length (remdups (filter truthy
               (map language (uploaded_records example_env ''p1'' example_batch)))) = 2"
    by (simp add: truthy_def)
  moreover have "length example_batch = 2"
    by (simp add: example_batch_def)
  ultimately show ?thesis
    using upload_success_state [OF example_upload_status] by auto
qed

lemma example_decoding:
  "Buffer_toString example_env (buffer (failing_batch ! 0)) = Inr ''print(1)''"
  "Buffer_toString example_env (buffer (failing_batch ! 1)) =
     Inl ''Cannot create a string longer than MAX_STRING_LENGTH characters''"
  "Buffer_toString example_env (buffer (example_batch ! 0)) = Inr ''print(1)''"
  "Buffer_toString example_env (buffer (example_batch ! 1)) = Inr ''let x=1;''"
  by (simp_all add: Buffer_toString_def failing_batch_def example_batch_def example_env_def
        length_huge_buffer)

lemma example_getProjectFile:
  "getProjectFile example_store ''f-old'' =
     Some \<lparr> file_id = ''f-old'', file_projectId = ''p1'', path = ''old.js'',
         content = ''var x;'', language = Some ''javascript'', file_size = Some 6,
         file_createdAt = Some 1001 \<rparr>"
  "getProjectFile example_store ''no-such-id'' = None"
  by (simp_all add: getProjectFile_def Map_get_def DAList.lookup.rep_eq example_store_fields)

lemma example_backends_fail:
  "all_backends_fail example_env (analysis_prompt example_files) (Some analysis_systemPrompt)"
  by (simp add: all_backends_fail_def try_models_nova Let_def example_env_def truthy_def)

lemma example_reply:
  "invokeAI (env_replying reply) prompt (Some analysis_systemPrompt) = Inr reply"
  by (simp add: invokeAI_def try_models_nova Let_def env_replying_def example_env_def)

lemma example_parse:
  "JSON_parse (env_replying reply) ''{}'' = Some (JObject [])"
  "JSON_parse (env_replying reply) ''I cannot help with that'' = None"
  by (simp_all add: env_replying_def example_env_def)

section \<open>The claims of the specification\<close>

subsection \<open>C1: failure atomicity of the upload\<close>

text \<open>
  Claim C1 says that an upload which fails at any point leaves the project's old file set
  intact. The handler clears the old files before it decodes and stores the new ones, and
  nothing restores them. Here the project holds \<^verbatim>\<open>old.js\<close>; the second file of the batch
  has more bytes than a string can hold, so decoding it raises and the handler answers 500;
  afterwards the project holds \<^verbatim>\<open>a.py\<close>, the first file of the batch, and \<^verbatim>\<open>old.js\<close>
  is gone.
\<close>

theorem upload_not_atomic_counterexample:
  "map path (getProjectFiles example_store ''p1'') = [''old.js'']
   \<and> status (fst (upload_route example_env example_store ''p1'' (Some failing_batch))) = 500
   \<and> map path (getProjectFiles
         (snd (upload_route example_env example_store ''p1'' (Some failing_batch))) ''p1'')
       = [''a.py'']"
  by (simp add: failing_upload_result example_store_fields getProjectFiles_def Map_values_def
        Map_set_def DAList.update.rep_eq example_after_delete uploaded_record_def)

text \<open>
  Claim C1 as amended. The handler answers 200, 400, 404 or 500. A 400 or 404 answer
  leaves the store as it was. After a 200 answer every file stored for the project is a
  record of the batch, and with pairwise distinct identifiers the stored files are exactly
  the records of the batch. After a 500 answer some file \<open>k\<close> of the batch failed to
  decode, the files stored for the project are among the records of the first \<open>k\<close> files
  of the batch, and the project's own record is as before. Conversely, when the project
  exists and file \<open>k\<close> is the first of the batch whose decoding raises, the answer is 500
  and the store is the given one with the project's old files deleted and the records of
  the first \<open>k\<close> files stored: no old file of the project remains unless it equals one
  of these records, so the old set is not restored. When the batch is not empty, the
  project exists and every file decodes, the answer is 200.
\<close>

theorem upload_outcomes:
  "status (fst (upload_route e st pid files)) \<in> {200, 400, 404, 500}
   \<and> (status (fst (upload_route e st pid files)) = 400
        \<or> status (fst (upload_route e st pid files)) = 404 \<longrightarrow>
        snd (upload_route e st pid files) = st)
   \<and> (status (fst (upload_route e st pid files)) = 200 \<longrightarrow>
        (\<exists>fs. files = Some fs
           \<and> set (getProjectFiles (snd (upload_route e st pid files)) pid)
               \<subseteq> set (uploaded_records e pid fs)
           \<and> (distinct (map (randomUUID e) [0..<length fs]) \<longrightarrow>
                mset (getProjectFiles (snd (upload_route e st pid files)) pid) =
                mset (uploaded_records e pid fs))))
   \<and> (status (fst (upload_route e st pid files)) = 500 \<longrightarrow>
        (\<exists>fs k err. files = Some fs \<and> k < length fs
           \<and> Buffer_toString e (buffer (fs ! k)) = Inl err
           \<and> set (getProjectFiles (snd (upload_route e st pid files)) pid)
               \<subseteq> set (uploaded_records e pid (take k fs))
           \<and> getProject (snd (upload_route e st pid files)) pid = getProject st pid))
   \<and> (files = Some fs \<and> getProject st pid \<noteq> None \<and> k < length fs
        \<and> Buffer_toString e (buffer (fs ! k)) = Inl err
        \<and> (\<forall>j<k. \<exists>t. Buffer_toString e (buffer (fs ! j)) = Inr t) \<longrightarrow>
        fst (upload_route e st pid files) = Response 500 (Message ''Failed to upload files'')
        \<and> snd (upload_route e st pid files) =
            (snd (deleteProjectFiles st pid))\<lparr>projectFiles :=
               fold (\<lambda>r. Map_set (file_id r) r) (uploaded_records e pid (take k fs))
                 (projectFiles (snd (deleteProjectFiles st pid)))\<rparr>
        \<and> (\<forall>f\<in>set (getProjectFiles st pid).
              f \<notin> set (uploaded_records e pid (take k fs)) \<longrightarrow>
              f \<notin> set (getProjectFiles (snd (upload_route e st pid files)) pid)))
   \<and> (files = Some fs \<and> fs \<noteq> [] \<and> getProject st pid \<noteq> None
        \<and> (\<forall>j<length fs. \<exists>t. Buffer_toString e (buffer (fs ! j)) = Inr t) \<longrightarrow>
        status (fst (upload_route e st pid files)) = 200)"
proof -
  let ?r = "upload_route e st pid files"
  let ?st1 = "snd (deleteProjectFiles st pid)"
  have codes: "status (fst ?r) \<in> {200, 400, 404, 500}"
    by (auto simp: upload_route_cases split: prod.splits sum.splits)
  have early: "status (fst ?r) = 400 \<or> status (fst ?r) = 404 \<longrightarrow> snd ?r = st"
    by (auto simp: upload_route_cases split: prod.splits sum.splits)
  have ok: "status (fst ?r) = 200 \<longrightarrow>
        (\<exists>fs. files = Some fs
           \<and> set (getProjectFiles (snd ?r) pid) \<subseteq> set (uploaded_records e pid fs)
           \<and> (distinct (map (randomUUID e) [0..<length fs]) \<longrightarrow>
                mset (getProjectFiles (snd ?r) pid) = mset (uploaded_records e pid fs)))"
  proof
    assume s: "status (fst ?r) = 200"
    then obtain fs where fs: "files = Some fs"
      by (cases files) (auto simp: upload_route_cases)
    from s fs have s': "status (fst (upload_route e st pid (Some fs))) = 200" by simp
    from upload_success_state [OF s']
    have pf: "projectFiles (snd (upload_route e st pid (Some fs))) =
         fold (\<lambda>r. Map_set (file_id r) r) (uploaded_records e pid fs) (projectFiles ?st1)"
      by blast
    have sub: "set (getProjectFiles (snd (upload_route e st pid (Some fs))) pid)
                 \<subseteq> set (uploaded_records e pid fs)"
      unfolding getProjectFiles_def pf by (rule getProjectFiles_fold_store_set)
    have eq: "distinct (map (randomUUID e) [0..<length fs]) \<longrightarrow>
                mset (getProjectFiles (snd (upload_route e st pid (Some fs))) pid) =
                mset (uploaded_records e pid fs)"
      using upload_stored_files [OF s'] by simp
    from fs sub eq show "\<exists>fs. files = Some fs
           \<and> set (getProjectFiles (snd ?r) pid) \<subseteq> set (uploaded_records e pid fs)
           \<and> (distinct (map (randomUUID e) [0..<length fs]) \<longrightarrow>
                mset (getProjectFiles (snd ?r) pid) = mset (uploaded_records e pid fs))"
      by auto
  qed
  have failed: "status (fst ?r) = 500 \<longrightarrow>
        (\<exists>fs k err. files = Some fs \<and> k < length fs
           \<and> Buffer_toString e (buffer (fs ! k)) = Inl err
           \<and> set (getProjectFiles (snd ?r) pid) \<subseteq> set (uploaded_records e pid (take k fs))
           \<and> getProject (snd ?r) pid = getProject st pid)"
  proof
    assume s: "status (fst ?r) = 500"
    then obtain fs where fs: "files = Some fs" and ne: "fs \<noteq> []"
      and p: "getProject st pid \<noteq> None"
      by (cases files) (auto simp: upload_route_cases split: if_splits)
    obtain res st2 where l: "upload_loop e pid fs 0 ?st1 [] 0 = (res, st2)"
      by (cases "upload_loop e pid fs 0 ?st1 [] 0")
    from s fs ne p l obtain err where res: "res = Inl err"
      by (cases res) (auto simp: upload_route_cases)
    from fs ne p l res have r: "snd ?r = st2"
      by (auto simp: upload_route_cases)
    from upload_loop_failure [OF l [unfolded res]] obtain k where k: "k < length fs"
      "Buffer_toString e (buffer (fs ! k)) = Inl err"
      "st2 = ?st1\<lparr>projectFiles :=
          fold (\<lambda>r. Map_set (file_id r) r) (uploaded_records_from e pid 0 (take k fs))
            (projectFiles ?st1)\<rparr>"
      by blast
    have sub: "set (getProjectFiles st2 pid) \<subseteq> set (uploaded_records e pid (take k fs))"
      unfolding getProjectFiles_def k(3) uploaded_records_def
      using getProjectFiles_fold_store_set [of pid "uploaded_records_from e pid 0 (take k fs)" st]
      by simp
    have pr: "getProject st2 pid = getProject st pid"
      by (simp add: k(3) getProject_def deleteProjectFiles_frame)
    from fs k(1,2) sub pr r show "\<exists>fs k err. files = Some fs \<and> k < length fs
           \<and> Buffer_toString e (buffer (fs ! k)) = Inl err
           \<and> set (getProjectFiles (snd ?r) pid) \<subseteq> set (uploaded_records e pid (take k fs))
           \<and> getProject (snd ?r) pid = getProject st pid"
      by auto
  qed
  have raised: "files = Some fs \<and> getProject st pid \<noteq> None \<and> k < length fs
        \<and> Buffer_toString e (buffer (fs ! k)) = Inl err
        \<and> (\<forall>j<k. \<exists>t. Buffer_toString e (buffer (fs ! j)) = Inr t) \<longrightarrow>
        fst ?r = Response 500 (Message ''Failed to upload files'')
        \<and> snd ?r =
            ?st1\<lparr>projectFiles :=
               fold (\<lambda>r. Map_set (file_id r) r) (uploaded_records e pid (take k fs))
                 (projectFiles ?st1)\<rparr>
        \<and> (\<forall>f\<in>set (getProjectFiles st pid).
              f \<notin> set (uploaded_records e pid (take k fs)) \<longrightarrow>
              f \<notin> set (getProjectFiles (snd ?r) pid))"
  proof (intro impI)
    assume h: "files = Some fs \<and> getProject st pid \<noteq> None \<and> k < length fs
        \<and> Buffer_toString e (buffer (fs ! k)) = Inl err
        \<and> (\<forall>j<k. \<exists>t. Buffer_toString e (buffer (fs ! j)) = Inr t)"
    then have r: "?r = (Response 500 (Message ''Failed to upload files''),
        ?st1\<lparr>projectFiles :=
               fold (\<lambda>r. Map_set (file_id r) r) (uploaded_records e pid (take k fs))
                 (projectFiles ?st1)\<rparr>)"
      using upload_decode_failure [of st pid k fs e err] by simp
    have sub: "set (getProjectFiles (snd ?r) pid) \<subseteq> set (uploaded_records e pid (take k fs))"
      unfolding r getProjectFiles_def
      using getProjectFiles_fold_store_set [of pid "uploaded_records e pid (take k fs)" st]
      by simp
    from r sub show "fst ?r = Response 500 (Message ''Failed to upload files'')
        \<and> snd ?r =
            ?st1\<lparr>projectFiles :=
               fold (\<lambda>r. Map_set (file_id r) r) (uploaded_records e pid (take k fs))
                 (projectFiles ?st1)\<rparr>
        \<and> (\<forall>f\<in>set (getProjectFiles st pid).
              f \<notin> set (uploaded_records e pid (take k fs)) \<longrightarrow>
              f \<notin> set (getProjectFiles (snd ?r) pid))"
      by auto
  qed
  have decoded: "files = Some fs \<and> fs \<noteq> [] \<and> getProject st pid \<noteq> None
        \<and> (\<forall>j<length fs. \<exists>t. Buffer_toString e (buffer (fs ! j)) = Inr t) \<longrightarrow>
        status (fst ?r) = 200"
    using upload_all_decoded [of st pid fs e] by auto
  show ?thesis
    using codes early ok failed raised decoded by (intro conjI)
qed

theorem upload_outcomes_witness:
  "getProject example_store ''p1'' \<noteq> None
   \<and> (1::nat) < length failing_batch
   \<and> Buffer_toString example_env (buffer (failing_batch ! 0)) = Inr ''print(1)''
   \<and> Buffer_toString example_env (buffer (failing_batch ! 1)) =
        Inl ''Cannot create a string longer than MAX_STRING_LENGTH characters''
   \<and> fst (upload_route example_env example_store ''p1'' (Some failing_batch)) =
        Response 500 (Message ''Failed to upload files'')
   \<and> snd (upload_route example_env example_store ''p1'' (Some failing_batch)) =
        (snd (deleteProjectFiles example_store ''p1''))\<lparr>projectFiles :=
           fold (\<lambda>r. Map_set (file_id r) r)
             (uploaded_records example_env ''p1'' (take 1 failing_batch))
             (projectFiles (snd (deleteProjectFiles example_store ''p1'')))\<rparr>
   \<and> (\<exists>fs k err. Some failing_batch = Some fs \<and> k < length fs
         \<and> Buffer_toString example_env (buffer (fs ! k)) = Inl err
         \<and> set (getProjectFiles
               (snd (upload_route example_env example_store ''p1'' (Some failing_batch))) ''p1'')
             \<subseteq> set (uploaded_records example_env ''p1'' (take k fs))
         \<and> getProject (snd (upload_route example_env example_store ''p1'' (Some failing_batch)))
              ''p1'' = getProject example_store ''p1'')
   \<and> status (fst (upload_route example_env example_store ''p1'' (Some []))) = 400
   \<and> snd (upload_route example_env example_store ''p1'' (Some [])) = example_store
   \<and> example_batch \<noteq> []
   \<and> status (fst (upload_route example_env example_store ''p1'' (Some example_batch))) = 200"
proof -
  have p: "getProject example_store ''p1'' \<noteq> None"
    by (simp add: example_getProject)
  have len: "(1::nat) < length failing_batch" "length example_batch = 2"
    by (simp_all add: failing_batch_def example_batch_def)
  have before: "\<forall>j<1::nat. \<exists>t. Buffer_toString example_env (buffer (failing_batch ! j)) = Inr t"
    by (simp add: example_decoding)
  have all: "\<forall>j<length example_batch.
               \<exists>t. Buffer_toString example_env (buffer (example_batch ! j)) = Inr t"
    using example_decoding(3,4) by (simp add: len less_Suc_eq numeral_2_eq_2)
  have ne: "example_batch \<noteq> []"
    by (simp add: example_batch_def)
  note T = upload_outcomes [of example_env example_store "''p1''" "Some failing_batch"
      failing_batch 1 "''Cannot create a string longer than MAX_STRING_LENGTH characters''"]
  have hyp: "Some failing_batch = Some failing_batch \<and> getProject example_store ''p1'' \<noteq> None
      \<and> 1 < length failing_batch
      \<and> Buffer_toString example_env (buffer (failing_batch ! 1)) =
          Inl ''Cannot create a string longer than MAX_STRING_LENGTH characters''
      \<and> (\<forall>j<1. \<exists>t. Buffer_toString example_env (buffer (failing_batch ! j)) = Inr t)"
    using p len(1) before example_decoding(2) by blast
  from T hyp
  have ab: "fst (upload_route example_env example_store ''p1'' (Some failing_batch)) =
        Response 500 (Message ''Failed to upload files'')
      \<and> snd (upload_route example_env example_store ''p1'' (Some failing_batch)) =
        (snd (deleteProjectFiles example_store ''p1''))\<lparr>projectFiles :=
           fold (\<lambda>r. Map_set (file_id r) r)
             (uploaded_records example_env ''p1'' (take 1 failing_batch))
             (projectFiles (snd (deleteProjectFiles example_store ''p1'')))\<rparr>"
    by blast
  then have a: "fst (upload_route example_env example_store ''p1'' (Some failing_batch)) =
        Response 500 (Message ''Failed to upload files'')"
    and b: "snd (upload_route example_env example_store ''p1'' (Some failing_batch)) =
        (snd (deleteProjectFiles example_store ''p1''))\<lparr>projectFiles :=
           fold (\<lambda>r. Map_set (file_id r) r)
             (uploaded_records example_env ''p1'' (take 1 failing_batch))
             (projectFiles (snd (deleteProjectFiles example_store ''p1'')))\<rparr>"
    by blast+
  from a have s500: "status (fst (upload_route example_env example_store ''p1''
      (Some failing_batch))) = 500"
    by simp
  from T s500
  have c: "\<exists>fs k err. Some failing_batch = Some fs \<and> k < length fs
         \<and> Buffer_toString example_env (buffer (fs ! k)) = Inl err
         \<and> set (getProjectFiles
               (snd (upload_route example_env example_store ''p1'' (Some failing_batch))) ''p1'')
             \<subseteq> set (uploaded_records example_env ''p1'' (take k fs))
         \<and> getProject (snd (upload_route example_env example_store ''p1'' (Some failing_batch)))
              ''p1'' = getProject example_store ''p1''"
    by blast
  have e: "status (fst (upload_route example_env example_store ''p1'' (Some []))) = 400"
    by (simp add: upload_route_cases)
  from upload_outcomes [of example_env example_store "''p1''" "Some []"] e
  have d: "snd (upload_route example_env example_store ''p1'' (Some [])) = example_store"
    by simp
  from upload_outcomes [of example_env example_store "''p1''" "Some example_batch"
      example_batch] p ne all
  have f: "status (fst (upload_route example_env example_store ''p1'' (Some example_batch))) = 200"
    by blast
  from p len(1) example_decoding(1,2) a b c e d ne f show ?thesis by (intro conjI)
qed

subsection \<open>C2: the result when every backend fails\<close>

text \<open>
  Claim C2 says that when every backend fails \<^verbatim>\<open>analyzeCodebase\<close> returns one default
  language entry, no issues and no suggestions. With all backends down the function returns
  its demonstration result instead, which has two language entries, two issues and two
  suggestions.
\<close>

theorem backend_failure_fallback_counterexample:
  "all_backends_fail example_env (analysis_prompt example_files) (Some analysis_systemPrompt)
   \<and> \<not> returns_with spec_fallback_shape (analyzeCodebase example_env example_files)"
proof -
  have "invokeAI example_env (analysis_prompt example_files) (Some analysis_systemPrompt)
          = Inl (''Failed to invoke AWS Bedrock: ''
                          @ ''All Bedrock models and OpenAI fallback failed'')"
    by (simp add: invokeAI_def try_models_nova Let_def example_env_def truthy_def)
  then have "analyzeCodebase example_env example_files = Inr (demo_fallback example_files)"
    by (simp add: analyzeCodebase_def analyzeCodebase_try_def)
  moreover have "\<not> spec_fallback_shape (demo_fallback example_files)"
    by (simp add: spec_fallback_shape_def demo_fallback_def json_field_def)
  ultimately show ?thesis
    using example_backends_fail by (simp add: returns_with_def)
qed

text \<open>
  Claim C2 as amended: when every configured backend fails, \<^verbatim>\<open>invokeAI\<close> raises and
  \<^verbatim>\<open>analyzeCodebase\<close> returns, without raising, the fixed demonstration result: the two
  language entries TypeScript and JavaScript, two issues, two suggestions and an
  architecture string; it is well typed.
\<close>

theorem analyze_backend_failure:
  assumes "all_backends_fail e (analysis_prompt files) (Some analysis_systemPrompt)"
  shows "(\<exists>err. invokeAI e (analysis_prompt files) (Some analysis_systemPrompt) = Inl err)
     \<and> analyzeCodebase e files = Inr (demo_fallback files)
     \<and> object_keys (json_field ''detectedLanguages'' (demo_fallback files))
         = Some [''TypeScript'', ''JavaScript'']
     \<and> array_length (json_field ''issues'' (demo_fallback files)) = Some 2
     \<and> array_length (json_field ''suggestions'' (demo_fallback files)) = Some 2
     \<and> is_string (json_field ''architecture'' (demo_fallback files))
     \<and> well_typed_analysis (demo_fallback files)"
proof -
  from assms obtain err where
    err: "invokeAI e (analysis_prompt files) (Some analysis_systemPrompt) = Inl err"
    using invokeAI_fails_iff by blast
  then have "analyzeCodebase e files = Inr (demo_fallback files)"
    by (simp add: analyzeCodebase_def analyzeCodebase_try_def)
  moreover have "object_keys (json_field ''detectedLanguages'' (demo_fallback files))
         = Some [''TypeScript'', ''JavaScript'']"
    by (simp add: demo_fallback_def json_field_def object_keys_def)
  moreover have "array_length (json_field ''issues'' (demo_fallback files)) = Some 2"
    by (simp add: demo_fallback_def json_field_def array_length_def)
  moreover have "array_length (json_field ''suggestions'' (demo_fallback files)) = Some 2"
    by (simp add: demo_fallback_def json_field_def array_length_def)
  moreover have "is_string (json_field ''architecture'' (demo_fallback files))"
    by (simp add: demo_fallback_def json_field_def is_string_def)
  ultimately show ?thesis using err well_typed_demo_fallback by blast
qed

theorem analyze_backend_failure_witness:
  "all_backends_fail example_env (analysis_prompt example_files) (Some analysis_systemPrompt)
   \<and> analyzeCodebase example_env example_files = Inr (demo_fallback example_files)
   \<and> array_length (json_field ''issues'' (demo_fallback example_files)) = Some 2"
  using analyze_backend_failure [OF example_backends_fail] example_backends_fail by simp

subsection \<open>C3: replies that are not valid structured output\<close>

text \<open>
  Claim C3 says that for every reply that is not valid structured output
  \<^verbatim>\<open>analyzeCodebase\<close> returns a value with a \<^verbatim>\<open>detectedLanguages\<close> map, an \<^verbatim>\<open>issues\<close>
  list and a \<^verbatim>\<open>suggestions\<close> list. The reply \<^verbatim>\<open>{}\<close> is JSON, so it is returned as
  parsed, and it has none of the three.
\<close>

theorem nonconforming_reply_counterexample:
  "invokeAI (env_replying ''{}'') (analysis_prompt example_files) (Some analysis_systemPrompt)
     = Inr ''{}''
   \<and> JSON_parse (env_replying ''{}'') ''{}'' = Some (JObject [])
   \<and> \<not> well_typed_analysis (JObject [])
   \<and> \<not> returns_with well_typed_analysis (analyzeCodebase (env_replying ''{}'') example_files)"
proof -
  have "analyzeCodebase (env_replying ''{}'') example_files = Inr (JObject [])"
    by (simp add: analyzeCodebase_def analyzeCodebase_try_def example_reply example_parse)
  moreover have "\<not> well_typed_analysis (JObject [])"
    by (simp add: well_typed_analysis_def json_field_def is_object_def)
  ultimately show ?thesis
    by (simp add: returns_with_def example_reply example_parse)
qed

text \<open>
  Claim C3 as amended: \<^verbatim>\<open>analyzeCodebase\<close> never raises. For every reply that
  \<^verbatim>\<open>JSON.parse\<close> rejects it returns the parse fallback, which is well typed; a reply that
  parses is returned as parsed, whatever its shape. The analysis route answers 200 for
  every existing project that has files.
\<close>

theorem analyze_unparsable_reply:
  "(\<exists>v. analyzeCodebase e files = Inr v)
   \<and> (invokeAI e (analysis_prompt files) (Some analysis_systemPrompt) = Inr response
        \<and> JSON_parse e response = None \<longrightarrow>
        analyzeCodebase e files = Inr parse_fallback
        \<and> returns_with well_typed_analysis (analyzeCodebase e files))
   \<and> (invokeAI e (analysis_prompt files) (Some analysis_systemPrompt) = Inr response
        \<and> JSON_parse e response = Some parsed \<longrightarrow>
        analyzeCodebase e files = Inr parsed)
   \<and> (getProject st pid \<noteq> None \<and> getProjectFiles st pid \<noteq> [] \<longrightarrow>
        status (fst (analyze_route e st pid)) = 200)"
proof (intro conjI impI)
  show "\<exists>v. analyzeCodebase e files = Inr v" by (rule analyzeCodebase_total)
next
  assume "invokeAI e (analysis_prompt files) (Some analysis_systemPrompt) = Inr response
        \<and> JSON_parse e response = None"
  then show "analyzeCodebase e files = Inr parse_fallback"
    by (simp add: analyzeCodebase_def analyzeCodebase_try_def)
  then show "returns_with well_typed_analysis (analyzeCodebase e files)"
    by (simp add: returns_with_def well_typed_parse_fallback)
next
  assume "invokeAI e (analysis_prompt files) (Some analysis_systemPrompt) = Inr response
        \<and> JSON_parse e response = Some parsed"
  then show "analyzeCodebase e files = Inr parsed"
    by (simp add: analyzeCodebase_def analyzeCodebase_try_def)
next
  assume a: "getProject st pid \<noteq> None \<and> getProjectFiles st pid \<noteq> []"
  let ?fd = "map (\<lambda>file. \<lparr> fd_path = path file, fd_content = content file,
                fd_language = (if truthy (language file) then language file else None) \<rparr>)
              (getProjectFiles st pid)"
  obtain v where "analyzeCodebase e ?fd = Inr v"
    using analyzeCodebase_total by blast
  with a show "status (fst (analyze_route e st pid)) = 200"
    by (auto simp: analyze_route_def Let_def split: prod.splits)
qed

theorem analyze_unparsable_reply_witness:
  "invokeAI (env_replying ''I cannot help with that'') (analysis_prompt example_files)
       (Some analysis_systemPrompt) = Inr ''I cannot help with that''
   \<and> JSON_parse (env_replying ''I cannot help with that'') ''I cannot help with that'' = None
   \<and> analyzeCodebase (env_replying ''I cannot help with that'') example_files
       = Inr parse_fallback
   \<and> getProject example_store ''p1'' \<noteq> None \<and> getProjectFiles example_store ''p1'' \<noteq> []
   \<and> status (fst (analyze_route (env_replying ''I cannot help with that'') example_store ''p1''))
       = 200"
  using analyze_unparsable_reply [of "env_replying ''I cannot help with that''" example_files
      "''I cannot help with that''" "JNull" example_store "''p1''"]
  by (simp add: example_reply example_parse example_getProject example_getProjectFiles)

subsection \<open>C4: the counters after an upload\<close>

text \<open>
  Claim C4: after a successful upload the project's \<^verbatim>\<open>fileCount\<close> is the number of files
  stored for the project and its \<^verbatim>\<open>languageCount\<close> is the number of distinct language
  tags, other than \<^verbatim>\<open>null\<close>, among them. The identifiers drawn for the batch are taken
  to be pairwise distinct, which is what \<^verbatim>\<open>randomUUID\<close> is for.
\<close>

theorem upload_counters:
  assumes "status (fst (upload_route e st pid (Some fs))) = 200"
    and "distinct (map (randomUUID e) [0..<length fs])"
  shows "\<exists>p. getProject (snd (upload_route e st pid (Some fs))) pid = Some p
     \<and> fileCount p = length (getProjectFiles (snd (upload_route e st pid (Some fs))) pid)
     \<and> languageCount p =
         card (language_tags (getProjectFiles (snd (upload_route e st pid (Some fs))) pid))"
proof -
  let ?st' = "snd (upload_route e st pid (Some fs))"
  let ?rs = "uploaded_records e pid fs"
  let ?L = "(\<lambda>f. detectLanguage e (originalname f)) ` set fs"
  from upload_success_state [OF assms(1)] obtain project tot where
    p: "getProject ?st' pid =
         Some (project\<lparr>fileCount := length fs,
            languageCount := length (remdups (filter truthy (map language ?rs))),
            lastScanAt := Some (Date_now e (length fs)),
            linesProcessed := tot\<rparr>)"
    by blast
  from upload_stored_files [OF assms]
  have m: "mset (getProjectFiles ?st' pid) = mset ?rs"
    and len: "length (getProjectFiles ?st' pid) = length fs"
    by simp_all
  have langs: "map language ?rs = map (\<lambda>f. Some (detectLanguage e (originalname f))) fs"
    by (simp add: uploaded_records_def uploaded_records_from_props(4))
  have all_truthy: "filter truthy (map language ?rs) = map language ?rs"
    unfolding langs by (simp add: truthy_def detectLanguage_nonempty)
  have set_langs: "set (map language ?rs) = Some ` ?L"
    unfolding langs by auto
  have "length (remdups (filter truthy (map language ?rs))) = card (Some ` ?L)"
    unfolding all_truthy length_remdups_card_conv set_langs ..
  also have "\<dots> = card ?L"
    by (simp add: card_image)
  finally have lc: "length (remdups (filter truthy (map language ?rs))) = card ?L" .
  from m have "set (getProjectFiles ?st' pid) = set ?rs"
    by (rule mset_eq_setD)
  then have "set (map language (getProjectFiles ?st' pid)) = Some ` ?L"
    using set_langs by simp
  then have "language_tags (getProjectFiles ?st' pid) = ?L"
    by (simp only: language_tags_def Option.these_image_Some_eq)
  with p len lc show ?thesis by simp
qed

theorem upload_counters_witness:
  "status (fst (upload_route example_env example_store ''p1'' (Some example_batch))) = 200
   \<and> distinct (map (randomUUID example_env) [0..<length example_batch])
   \<and> (\<exists>p. getProject (snd (upload_route example_env example_store ''p1'' (Some example_batch)))
             ''p1'' = Some p
        \<and> fileCount p = length (getProjectFiles
             (snd (upload_route example_env example_store ''p1'' (Some example_batch))) ''p1'')
        \<and> languageCount p = card (language_tags (getProjectFiles
             (snd (upload_route example_env example_store ''p1'' (Some example_batch))) ''p1'')))
   \<and> map_option (\<lambda>p. (fileCount p, languageCount p))
        (getProject (snd (upload_route example_env example_store ''p1'' (Some example_batch)))
           ''p1'') = Some (2, 2)"
  using upload_counters [OF example_upload_status example_uuids_distinct]
    example_upload_status example_uuids_distinct example_upload_project
  by simp

subsection \<open>C5: an upload replaces the file set\<close>

text \<open>
  Claim C5: whatever the project held before, after a successful upload of \<open>M\<close> files the
  files stored for the project are exactly the \<open>M\<close> records made from the batch (again
  with pairwise distinct identifiers drawn for the batch).
\<close>

theorem upload_replaces_files:
  assumes "status (fst (upload_route e st pid (Some fs))) = 200"
    and "distinct (map (randomUUID e) [0..<length fs])"
  shows "mset (getProjectFiles (snd (upload_route e st pid (Some fs))) pid) =
           mset (uploaded_records e pid fs)
         \<and> length (getProjectFiles (snd (upload_route e st pid (Some fs))) pid) = length fs"
  using assms by (rule upload_stored_files)

theorem upload_replaces_files_witness:
  "status (fst (upload_route example_env example_store ''p1'' (Some example_batch))) = 200
   \<and> distinct (map (randomUUID example_env) [0..<length example_batch])
   \<and> length (getProjectFiles example_store ''p1'') = 1
   \<and> length (getProjectFiles
         (snd (upload_route example_env example_store ''p1'' (Some example_batch))) ''p1'') = 2"
  using upload_replaces_files [OF example_upload_status example_uuids_distinct]
    example_upload_status example_uuids_distinct
  by (simp add: example_getProjectFiles example_batch_def)

subsection \<open>C6: deleting a project\<close>

text \<open>
  Claim C6: \<^verbatim>\<open>deleteProject\<close> leaves no file and no analysis that references the
  identifier, removes the project, and returns whether a project with that identifier
  existed. The files and analyses of other projects, and the other projects, stay.
\<close>

theorem deleteProject_cascade:
  "getProjectFiles (snd (deleteProject st pid)) pid = []
   \<and> filter (\<lambda>a. analysis_projectId a = pid)
        (Map_values (analysisResults (snd (deleteProject st pid)))) = []
   \<and> getProject (snd (deleteProject st pid)) pid = None
   \<and> fst (deleteProject st pid) = (getProject st pid \<noteq> None)
   \<and> Map_values (projectFiles (snd (deleteProject st pid))) =
       filter (\<lambda>f. file_projectId f \<noteq> pid) (Map_values (projectFiles st))
   \<and> Map_values (analysisResults (snd (deleteProject st pid))) =
       filter (\<lambda>a. analysis_projectId a \<noteq> pid) (Map_values (analysisResults st))
   \<and> (\<forall>q. q \<noteq> pid \<longrightarrow> getProject (snd (deleteProject st pid)) q = getProject st q)"
proof -
  define st1 where "st1 = snd (deleteProjectFiles st pid)"
  define keys where "keys = filter (\<lambda>key. map_option analysis_projectId
      (Map_get (analysisResults st1) key) = Some pid) (Map_keys (analysisResults st1))"
  define st2 where "st2 = st1\<lparr>analysisResults :=
      fold (\<lambda>key m. snd (Map_delete key m)) keys (analysisResults st1)\<rparr>"
  have res: "deleteProject st pid =
      (Map_has (projects st2) pid, st2\<lparr>projects := DAList.delete pid (projects st2)\<rparr>)"
    by (simp add: deleteProject_def Let_def Map_delete_def st1_def keys_def st2_def
          del: map_option_eq_Some)
  have files2: "projectFiles st2 = projectFiles st1"
    by (simp add: st2_def)
  have projects2: "projects st2 = projects st"
    by (simp add: st2_def st1_def deleteProjectFiles_frame)
  have analyses2: "Map_values (analysisResults st2) =
      filter (\<lambda>a. analysis_projectId a \<noteq> pid) (Map_values (analysisResults st))"
    unfolding st2_def keys_def
    by (simp add: Map_values_delete_where st1_def deleteProjectFiles_frame
          del: map_option_eq_Some)
  have c1: "getProjectFiles (snd (deleteProject st pid)) pid = []"
    using getProjectFiles_deleteProjectFiles [of st pid pid]
    by (simp add: res getProjectFiles_def files2 st1_def)
  have c2: "filter (\<lambda>a. analysis_projectId a = pid)
        (Map_values (analysisResults (snd (deleteProject st pid)))) = []"
    by (simp add: res analyses2)
  have c3: "getProject (snd (deleteProject st pid)) pid = None"
    by (simp add: res getProject_def Map_get_def)
  have c4: "fst (deleteProject st pid) = (getProject st pid \<noteq> None)"
    by (simp add: res getProject_def Map_get_def Map_has_def projects2)
  have c5: "Map_values (projectFiles (snd (deleteProject st pid))) =
       filter (\<lambda>f. file_projectId f \<noteq> pid) (Map_values (projectFiles st))"
    by (simp add: res files2 st1_def Map_values_def projectFiles_deleteProjectFiles
          filter_map comp_def)
  have c6: "Map_values (analysisResults (snd (deleteProject st pid))) =
       filter (\<lambda>a. analysis_projectId a \<noteq> pid) (Map_values (analysisResults st))"
    by (simp add: res analyses2)
  have c7: "\<forall>q. q \<noteq> pid \<longrightarrow> getProject (snd (deleteProject st pid)) q = getProject st q"
    by (simp add: res getProject_def Map_get_def projects2)
  from c1 c2 c3 c4 c5 c6 c7 show ?thesis by blast
qed

theorem deleteProject_cascade_witness:
  "getProject example_store ''p1'' \<noteq> None
   \<and> getProjectFiles example_store ''p1'' \<noteq> []
   \<and> fst (deleteProject example_store ''p1'')
   \<and> getProjectFiles (snd (deleteProject example_store ''p1'')) ''p1'' = []
   \<and> Map_values (analysisResults (snd (deleteProject example_store ''p1''))) = []
   \<and> \<not> fst (deleteProject example_store ''p2'')"
proof -
  have a: "getProject example_store ''p2'' = None"
    by (simp add: getProject_def Map_get_def DAList.lookup.rep_eq example_store_fields)
  have b: "filter (\<lambda>a. analysis_projectId a \<noteq> ''p1'') (Map_values (analysisResults example_store)) = []"
    by (simp add: Map_values_def example_store_fields)
  from deleteProject_cascade [of example_store "''p1''"]
    deleteProject_cascade [of example_store "''p2''"] a b
  show ?thesis by (simp add: example_getProject example_getProjectFiles)
qed

subsection \<open>C7: the latest analysis\<close>

text \<open>
  Claim C7: \<^verbatim>\<open>getLatestAnalysis\<close> returns nothing exactly when the project has no
  analysis, and otherwise a stored analysis of the project whose creation time is the
  greatest; after two analyses are created at times \<open>t1 < t2\<close>, the second later than
  every analysis the project had, it returns the second.
\<close>

theorem getLatestAnalysis_max:
  "(case getLatestAnalysis st pid of
      None \<Rightarrow> \<forall>a\<in>set (Map_values (analysisResults st)). analysis_projectId a \<noteq> pid
    | Some a \<Rightarrow>
        a \<in> set (Map_values (analysisResults st)) \<and> analysis_projectId a = pid
        \<and> (\<forall>b\<in>set (Map_values (analysisResults st)).
              analysis_projectId b = pid \<longrightarrow> created_ms b \<le> created_ms a))
   \<and> (t1 < t2 \<and> (\<forall>b\<in>set (Map_values (analysisResults st)).
                     analysis_projectId b = pid \<longrightarrow> created_ms b < t2) \<longrightarrow>
        getLatestAnalysis
          (snd (createAnalysis (snd (createAnalysis st u1 t1 pid d1)) u2 t2 pid d2)) pid
        = Some (fst (createAnalysis (snd (createAnalysis st u1 t1 pid d1)) u2 t2 pid d2)))"
proof (intro conjI impI)
  show "case getLatestAnalysis st pid of
      None \<Rightarrow> \<forall>a\<in>set (Map_values (analysisResults st)). analysis_projectId a \<noteq> pid
    | Some a \<Rightarrow>
        a \<in> set (Map_values (analysisResults st)) \<and> analysis_projectId a = pid
        \<and> (\<forall>b\<in>set (Map_values (analysisResults st)).
              analysis_projectId b = pid \<longrightarrow> created_ms b \<le> created_ms a)"
  proof (cases "getLatestAnalysis st pid")
    case None
    then show ?thesis using getLatestAnalysis_None [of st pid] by simp
  next
    case (Some a)
    then show ?thesis using getLatestAnalysis_Some [OF Some] by simp
  qed
next
  assume h: "t1 < t2 \<and> (\<forall>b\<in>set (Map_values (analysisResults st)).
                     analysis_projectId b = pid \<longrightarrow> created_ms b < t2)"
  define a1 where "a1 = \<lparr> analysis_id = u1, analysis_projectId = pid,
            analysis_createdAt = Some t1, analysisData = d1 \<rparr>"
  define a2 where "a2 = \<lparr> analysis_id = u2, analysis_projectId = pid,
            analysis_createdAt = Some t2, analysisData = d2 \<rparr>"
  define st2 where "st2 = snd (createAnalysis (snd (createAnalysis st u1 t1 pid d1)) u2 t2 pid d2)"
  have fst2: "fst (createAnalysis (snd (createAnalysis st u1 t1 pid d1)) u2 t2 pid d2) = a2"
    by (simp add: createAnalysis_def a2_def Let_def)
  have vals: "analysisResults st2 = Map_set u2 a2 (Map_set u1 a1 (analysisResults st))"
    by (simp add: st2_def createAnalysis_def a1_def a2_def Let_def)
  have sub: "set (Map_values (analysisResults st2)) \<subseteq>
               insert a2 (insert a1 (set (Map_values (analysisResults st))))"
    unfolding vals
    using set_values_Map_set(1) [of u2 a2 "Map_set u1 a1 (analysisResults st)"]
          set_values_Map_set(1) [of u1 a1 "analysisResults st"]
    by blast
  have in2: "a2 \<in> set (Map_values (analysisResults st2))"
    unfolding vals by (rule set_values_Map_set(2))
  have "getLatestAnalysis st2 pid \<noteq> None"
    using in2 getLatestAnalysis_None [of st2 pid] by (auto simp: a2_def)
  then obtain a where a: "getLatestAnalysis st2 pid = Some a" by auto
  from getLatestAnalysis_Some [OF a] in2
  have mem: "a \<in> set (Map_values (analysisResults st2))" and pid: "analysis_projectId a = pid"
    and ge: "created_ms a2 \<le> created_ms a"
    by (auto simp: a2_def)
  have t2: "created_ms a2 = t2" by (simp add: a2_def created_ms_def)
  have t1: "created_ms a1 = t1" by (simp add: a1_def created_ms_def)
  from mem sub have "a = a2 \<or> a = a1 \<or> a \<in> set (Map_values (analysisResults st))" by auto
  with h pid ge t1 t2 have "a = a2" by auto
  with a show "getLatestAnalysis
          (snd (createAnalysis (snd (createAnalysis st u1 t1 pid d1)) u2 t2 pid d2)) pid
        = Some (fst (createAnalysis (snd (createAnalysis st u1 t1 pid d1)) u2 t2 pid d2))"
    by (simp add: fst2 st2_def)
qed

theorem getLatestAnalysis_max_witness:
  "getLatestAnalysis example_store ''p1'' =
     Some \<lparr> analysis_id = ''a1'', analysis_projectId = ''p1'',
            analysis_createdAt = Some 1002, analysisData = parse_fallback \<rparr>
   \<and> getLatestAnalysis example_store ''p2'' = None
   \<and> (2000::int) < 3000
   \<and> map created_ms (Map_values (analysisResults example_store)) = [1002]
   \<and> getLatestAnalysis
        (snd (createAnalysis (snd (createAnalysis example_store ''a2'' 2000 ''p1'' JNull))
                ''a3'' 3000 ''p1'' (JBool True))) ''p1''
      = Some \<lparr> analysis_id = ''a3'', analysis_projectId = ''p1'',
               analysis_createdAt = Some 3000, analysisData = JBool True \<rparr>"
proof -
  have v: "Map_values (analysisResults example_store) =
      [\<lparr> analysis_id = ''a1'', analysis_projectId = ''p1'',
            analysis_createdAt = Some 1002, analysisData = parse_fallback \<rparr>]"
    by (simp add: Map_values_def example_store_fields)
  have h: "\<forall>b\<in>set (Map_values (analysisResults example_store)).
         analysis_projectId b = ''p1'' \<longrightarrow> created_ms b < 3000"
    by (simp add: v created_ms_def)
  have l: "getLatestAnalysis example_store ''p1'' =
     Some \<lparr> analysis_id = ''a1'', analysis_projectId = ''p1'',
            analysis_createdAt = Some 1002, analysisData = parse_fallback \<rparr>"
    using getLatestAnalysis_max [of example_store "''p1''" 0 0 "''x''" JNull "''y''" JNull]
    by (cases "getLatestAnalysis example_store ''p1''") (simp_all add: v)
  have n: "getLatestAnalysis example_store ''p2'' = None"
    using getLatestAnalysis_max [of example_store "''p2''" 0 0 "''x''" JNull "''y''" JNull]
    by (cases "getLatestAnalysis example_store ''p2''") (simp_all add: v)
  from getLatestAnalysis_max [of example_store "''p1''" 2000 3000 "''a2''" JNull "''a3''" "JBool True"] h
  have "getLatestAnalysis
        (snd (createAnalysis (snd (createAnalysis example_store ''a2'' 2000 ''p1'' JNull))
                ''a3'' 3000 ''p1'' (JBool True))) ''p1''
      = Some (fst (createAnalysis (snd (createAnalysis example_store ''a2'' 2000 ''p1'' JNull))
                ''a3'' 3000 ''p1'' (JBool True)))"
    by simp
  then have t: "getLatestAnalysis
        (snd (createAnalysis (snd (createAnalysis example_store ''a2'' 2000 ''p1'' JNull))
                ''a3'' 3000 ''p1'' (JBool True))) ''p1''
      = Some \<lparr> analysis_id = ''a3'', analysis_projectId = ''p1'',
               analysis_createdAt = Some 3000, analysisData = JBool True \<rparr>"
    by (simp add: createAnalysis_def Let_def)
  have c: "map created_ms (Map_values (analysisResults example_store)) = [1002]"
    by (simp add: v created_ms_def)
  from l n c t show ?thesis by simp
qed

subsection \<open>C8: patching a file that does not exist\<close>

text \<open>
  Claim C8: for an identifier that resolves to no file the patch route answers 404 and
  the store is exactly as before: no record is created and none is changed.
\<close>

theorem patch_missing_file:
  assumes "getProjectFile st ident = None"
  shows "patch_route st ident new_content = (Response 404 (Message ''File not found''), st)"
  using assms by (simp add: patch_route_def updateProjectFile_def getProjectFile_def)

theorem patch_missing_file_witness:
  "getProjectFile example_store ''no-such-id'' = None
   \<and> patch_route example_store ''no-such-id'' ''// new'' =
       (Response 404 (Message ''File not found''), example_store)"
  using patch_missing_file [OF example_getProjectFile(2), of "''// new''"] example_getProjectFile(2)
  by simp

subsection \<open>C9: patching an existing file\<close>

text \<open>
  Claim C9: patching an existing file answers 200 with the record whose \<^verbatim>\<open>content\<close> is
  the new text; its path, language, identifier, project reference, creation time and size
  are as before, every other file is unchanged, no key is added, and projects and analyses
  are untouched.
\<close>

theorem patch_existing_file:
  assumes "getProjectFile st ident = Some f"
  shows "fst (patch_route st ident c) = Response 200 (FileBody (f\<lparr>content := c\<rparr>))
     \<and> getProjectFile (snd (patch_route st ident c)) ident = Some (f\<lparr>content := c\<rparr>)
     \<and> path (f\<lparr>content := c\<rparr>) = path f
     \<and> language (f\<lparr>content := c\<rparr>) = language f
     \<and> file_id (f\<lparr>content := c\<rparr>) = file_id f
     \<and> file_projectId (f\<lparr>content := c\<rparr>) = file_projectId f
     \<and> file_createdAt (f\<lparr>content := c\<rparr>) = file_createdAt f
     \<and> file_size (f\<lparr>content := c\<rparr>) = file_size f
     \<and> (\<forall>k. k \<noteq> ident \<longrightarrow>
            getProjectFile (snd (patch_route st ident c)) k = getProjectFile st k)
     \<and> Map_keys (projectFiles (snd (patch_route st ident c))) = Map_keys (projectFiles st)
     \<and> projects (snd (patch_route st ident c)) = projects st
     \<and> analysisResults (snd (patch_route st ident c)) = analysisResults st"
proof -
  have sp: "spread_ProjectFile f (no_ProjectFile_updates\<lparr>upd_content := Some c\<rparr>) = f\<lparr>content := c\<rparr>"
    by (simp add: spread_ProjectFile_def no_ProjectFile_updates_def or_old_def)
  have r: "patch_route st ident c =
      (Response 200 (FileBody (f\<lparr>content := c\<rparr>)),
       st\<lparr>projectFiles := Map_set ident (f\<lparr>content := c\<rparr>) (projectFiles st)\<rparr>)"
    using assms
    by (simp add: patch_route_def updateProjectFile_def getProjectFile_def sp Let_def)
  have "ident \<in> fst ` set (DAList.impl_of (projectFiles st))"
    using assms
    by (simp add: getProjectFile_def Map_get_def DAList.lookup.rep_eq map_of_eq_Some_iff
          image_iff) (metis fst_conv map_of_SomeD)
  then have keys: "Map_keys (Map_set ident (f\<lparr>content := c\<rparr>) (projectFiles st)) =
      Map_keys (projectFiles st)"
    by (simp add: Map_keys_def Map_set_def DAList.update.rep_eq update_keys)
  show ?thesis
    by (simp add: r keys getProjectFile_def Map_get_Map_set)
qed

theorem patch_existing_file_witness:
  "getProjectFile example_store ''f-old'' \<noteq> None
   \<and> getProjectFile (snd (patch_route example_store ''f-old'' ''// new'')) ''f-old'' =
       Some \<lparr> file_id = ''f-old'', file_projectId = ''p1'', path = ''old.js'',
         content = ''// new'', language = Some ''javascript'', file_size = Some 6,
         file_createdAt = Some 1001 \<rparr>"
  using patch_existing_file [OF example_getProjectFile(1), of "''// new''"] example_getProjectFile(1)
  by simp

subsection \<open>C10: an empty upload\<close>

text \<open>
  Claim C10: an upload with an empty batch, or with none, is answered 400 and the store is
  left exactly as it was.
\<close>

theorem upload_empty_rejected:
  "upload_route e st pid (Some []) = (Response 400 (Message ''No files uploaded''), st)
   \<and> upload_route e st pid None = (Response 400 (Message ''No files uploaded''), st)"
  by (simp add: upload_route_def)

theorem upload_empty_rejected_witness:
  "getProjectFiles (snd (upload_route example_env example_store ''p1'' (Some []))) ''p1'' =
     getProjectFiles example_store ''p1''
   \<and> status (fst (upload_route example_env example_store ''p1'' (Some []))) = 400"
  using upload_empty_rejected [of example_env example_store "''p1''"] by simp

end
